theory Spec2Isabelle
  imports Complex_Main "HOL-Library.Multiset" "HOL-Library.Char_ord" "HOL-Library.List_Lexorder"
begin

text \<open>
  The request handlers of the Vibe backend (routes/auth.ts, routes/users.ts,
  routes/posts.ts, routes/marketplace.ts and routes/video.ts over shared/database.ts) as
  functions on an explicit store. A handler takes the store and returns its response with
  the store it leaves; an exception thrown by the authentication middleware is the left
  summand of the outcome. What a handler reads from outside the store (the clock,
  \<^verbatim>\<open>crypto.randomUUID\<close>, the JWT plugin) is a parameter. The request bodies and queries
  are the validated ones: their types are the schemas of the routes.
\<close>

section \<open>JavaScript built-ins used by the handlers\<close>

text \<open>
  \<^verbatim>\<open>Array.prototype.findIndex\<close>: the index of the first element that satisfies the
  predicate; JavaScript's \<^verbatim>\<open>-1\<close> is \<open>None\<close>. \<^verbatim>\<open>Array.prototype.find\<close> is
  \<^const>\<open>List.find\<close>, \<^verbatim>\<open>some\<close> is \<^const>\<open>list_ex\<close>.
\<close>

fun findIndex :: "('a \<Rightarrow> bool) \<Rightarrow> 'a list \<Rightarrow> nat option" where
  "findIndex P [] = None"
| "findIndex P (x # xs) =
     (if P x then Some 0 else (case findIndex P xs of None \<Rightarrow> None | Some i \<Rightarrow> Some (Suc i)))"

text \<open>\<^verbatim>\<open>xs.splice(i, 1)\<close>: the element at index \<open>i\<close> is removed, the rest keeps its order.\<close>

definition splice1 :: "nat \<Rightarrow> 'a list \<Rightarrow> 'a list" where
  "splice1 i xs = take i xs @ drop (Suc i) xs"

text \<open>
  JavaScript numbers are modelled as reals. Comparison is exact on them; the IEEE rounding
  of \<^verbatim>\<open>(page - 1) * limit\<close> and of \<^verbatim>\<open>total / limit\<close> is not modelled, so the model
  computes what the code computes whenever these results are exactly representable, as
  they are for whole numbers and for the binary fractions of the examples.

  \<^verbatim>\<open>ToIntegerOrInfinity\<close>, which \<^verbatim>\<open>slice\<close> applies to its arguments: truncation towards
  zero.
\<close>

definition to_integer :: "real \<Rightarrow> int" where
  "to_integer x = (if x < 0 then \<lceil>x\<rceil> else \<lfloor>x\<rfloor>)"

text \<open>
  \<^verbatim>\<open>xs.slice(start, end)\<close> on the truncated arguments: a negative index counts from the
  end, and both are clamped to the array.
\<close>

definition slice_index :: "nat \<Rightarrow> int \<Rightarrow> nat" where
  "slice_index len i = (if i < 0 then nat (max (int len + i) 0) else min (nat i) len)"

definition slice :: "int \<Rightarrow> int \<Rightarrow> 'a list \<Rightarrow> 'a list" where
  "slice start fin xs =
     (let k = slice_index (length xs) start; e = slice_index (length xs) fin
      in take (e - k) (drop k xs))"

text \<open>Truthiness of an optional string: \<^verbatim>\<open>undefined\<close> and the empty string are falsy.\<close>

definition truthy :: "string option \<Rightarrow> bool" where
  "truthy s = (case s of None \<Rightarrow> False | Some v \<Rightarrow> v \<noteq> [])"

text \<open>\<^verbatim>\<open>s.includes(t)\<close>: \<open>t\<close> occurs in \<open>s\<close> as a contiguous substring.\<close>

fun startsWith :: "string \<Rightarrow> string \<Rightarrow> bool" where
  "startsWith s [] = True"
| "startsWith [] (c # t) = False"
| "startsWith (d # s) (c # t) = (d = c \<and> startsWith s t)"

fun includes_str :: "string \<Rightarrow> string \<Rightarrow> bool" where
  "includes_str [] t = (t = [])"
| "includes_str (d # s) t = (startsWith (d # s) t \<or> includes_str s t)"

text \<open>
  An insertion sort as the engines run it on short arrays: the elements are taken from
  left to right, and each is placed before the first element already placed for which the
  comparator returns a negative number. With a comparator that returns 0 for ties it is
  the stable sort that ECMAScript prescribes; with one that returns a negative number for
  ties it reverses them.
\<close>

fun insert_before :: "('a \<Rightarrow> 'a \<Rightarrow> int) \<Rightarrow> 'a \<Rightarrow> 'a list \<Rightarrow> 'a list" where
  "insert_before cmp x [] = [x]"
| "insert_before cmp x (y # ys) =
     (if cmp x y < 0 then x # y # ys else y # insert_before cmp x ys)"

definition insertion_sort :: "('a \<Rightarrow> 'a \<Rightarrow> int) \<Rightarrow> 'a list \<Rightarrow> 'a list" where
  "insertion_sort cmp xs = foldl (\<lambda>placed x. insert_before cmp x placed) [] xs"

text \<open>\<^verbatim>\<open>Array.from(new Set(xs))\<close>: the first occurrence of every value, in order.\<close>

fun uniq :: "'a list \<Rightarrow> 'a list" where
  "uniq [] = []"
| "uniq (x # xs) = x # filter (\<lambda>y. y \<noteq> x) (uniq xs)"

section \<open>Shared database (shared/database.ts)\<close>

text \<open>
  A \<^verbatim>\<open>Date\<close> is its time value. Every handler reads the clock; the model passes one
  reading per request.
\<close>

type_synonym date = nat

record user =
  u_id :: string
  u_email :: string
  u_username :: string
  u_firstName :: string
  u_lastName :: string
  u_avatar :: "string option"
  u_bio :: "string option"
  u_location :: "string option"
  u_website :: "string option"
  u_createdAt :: date
  u_updatedAt :: date

text \<open>
  The \<^verbatim>\<open>users\<close> array only grows (\<^verbatim>\<open>push\<close> in the register handler), and every
  \<^verbatim>\<open>User\<close> object that a post, a product or a room holds is an element of it, obtained by
  \<^verbatim>\<open>users.find\<close> in the authentication middleware. A reference to a \<^verbatim>\<open>User\<close> object
  is therefore modelled as its index in \<^verbatim>\<open>users\<close>: a profile update through one
  reference is seen through all of them, as in the source.
\<close>

type_synonym user_ref = nat

section \<open>Video rooms (routes/video.ts)\<close>

datatype room_status = Waiting | Active | Ended

record room =
  room_id :: string
  room_name :: string
  room_description :: "string option"
  room_host :: user_ref
  room_participants :: "user_ref list"
  room_isPrivate :: bool
  room_maxParticipants :: real
  room_password :: "string option"
  room_status :: room_status
  room_createdAt :: date
  room_updatedAt :: date
  room_endedAt :: "date option"

record createRoomRequest =
  crr_name :: string
  crr_description :: "string option"
  crr_isPrivate :: bool
  crr_maxParticipants :: real
  crr_password :: "string option"

text \<open>\<^verbatim>\<open>Partial<CreateRoomRequest>\<close>, the validated body of \<^verbatim>\<open>PUT /rooms/:id\<close>.\<close>

record updateRoomRequest =
  urr_name :: "string option"
  urr_description :: "string option"
  urr_isPrivate :: "bool option"
  urr_maxParticipants :: "real option"
  urr_password :: "string option"

section \<open>Posts (routes/posts.ts)\<close>

record comment =
  comment_id :: string
  comment_content :: string
  comment_author :: user_ref
  comment_postId :: string
  comment_createdAt :: date
  comment_updatedAt :: date

record post =
  post_id :: string
  post_content :: string
  post_author :: user_ref
  post_images :: "string list option"
  post_likes :: "string list"
  post_comments :: "comment list"
  post_createdAt :: date
  post_updatedAt :: date

record createPostRequest =
  cpr_content :: string
  cpr_images :: "string list option"

section \<open>Marketplace (routes/marketplace.ts)\<close>

datatype condition = New | LikeNew | Good | Fair | Poor

datatype product_status = Available | Sold | Reserved

record product =
  prod_id :: string
  prod_title :: string
  prod_description :: string
  prod_price :: real
  prod_currency :: string
  prod_category :: string
  prod_condition :: condition
  prod_images :: "string list"
  prod_seller :: user_ref
  prod_location :: "string option"
  prod_status :: product_status
  prod_tags :: "string list"
  prod_createdAt :: date
  prod_updatedAt :: date

record createProductRequest =
  cpq_title :: string
  cpq_description :: string
  cpq_price :: real
  cpq_currency :: string
  cpq_category :: string
  cpq_condition :: condition
  cpq_images :: "string list"
  cpq_location :: "string option"
  cpq_tags :: "string list"

record updateProductRequest =
  upq_title :: "string option"
  upq_description :: "string option"
  upq_price :: "real option"
  upq_condition :: "condition option"
  upq_images :: "string list option"
  upq_location :: "string option"
  upq_status :: "product_status option"
  upq_tags :: "string list option"

datatype sort_order = Asc | Desc

text \<open>
  The validated query of \<^verbatim>\<open>GET /\<close>. \<^verbatim>\<open>page\<close> and \<^verbatim>\<open>limit\<close> are \<^verbatim>\<open>t.Numeric\<close>:
  numbers, whole or not.
\<close>

record listQuery =
  q_page :: "real option"
  q_limit :: "real option"
  q_category :: "string option"
  q_minPrice :: "real option"
  q_maxPrice :: "real option"
  q_condition :: "condition option"
  q_status :: "product_status option"
  q_search :: "string option"
  q_sortBy :: "string option"
  q_sortOrder :: "sort_order option"

section \<open>Users (routes/users.ts) and authentication (routes/auth.ts)\<close>

record updateProfileRequest =
  upr_firstName :: "string option"
  upr_lastName :: "string option"
  upr_bio :: "string option"
  upr_location :: "string option"
  upr_website :: "string option"
  upr_avatar :: "string option"

record registerRequest =
  rr_email :: string
  rr_username :: string
  rr_password :: string
  rr_firstName :: string
  rr_lastName :: string

record loginRequest =
  lr_email :: string
  lr_password :: string

section \<open>The store, the environment of a request, and responses\<close>

text \<open>The module-level arrays and the credentials map.\<close>

record state =
  users :: "user list"
  userCredentials :: "string \<rightharpoonup> string"
  posts :: "post list"
  products :: "product list"
  videoRooms :: "room list"

definition init_state :: state where
  "init_state = \<lparr>users = [], userCredentials = Map.empty, posts = [], products = [],
     videoRooms = []\<rparr>"

text \<open>
  The result of \<^verbatim>\<open>jwt.verify\<close>: it may throw (the marketplace middleware and
  \<^verbatim>\<open>GET /verify\<close> catch that), return \<^verbatim>\<open>false\<close>, or return the payload, of which the
  handlers read \<^verbatim>\<open>userId\<close> only (absent when the payload has no such key).
\<close>

datatype verify_result = VerifyThrows | VerifyFalse | VerifyPayload "string option"

text \<open>
  What a request takes from outside the store: the clock, \<^verbatim>\<open>crypto.randomUUID()\<close>, the
  JWT plugin, and the built-ins \<^verbatim>\<open>toLowerCase\<close>, \<^verbatim>\<open>parseInt\<close> (\<open>None\<close> is
  \<^verbatim>\<open>NaN\<close>) and \<^verbatim>\<open>Array.prototype.sort\<close> on an array of products, which are parameters
  of the model. The comparator of the marketplace listing never returns 0 for two
  products that have the field, so ECMAScript leaves the order of the sorted array to the
  engine: \<open>array_sort\<close> is whatever the engine returns.
\<close>

record env =
  now :: date
  randomUUID :: string
  jwt_verify :: "string \<Rightarrow> verify_result"
  jwt_sign :: "string \<Rightarrow> string \<Rightarrow> string"
  toLowerCase :: "string \<Rightarrow> string"
  parseInt :: "string \<Rightarrow> int option"
  array_sort :: "(product \<Rightarrow> product \<Rightarrow> int) \<Rightarrow> product list \<Rightarrow> product list"

text \<open>
  The message strings of the source, one constructor each (the French text is in the
  source; the names follow it).
\<close>

datatype message =
    TokenManquant | TokenInvalide | UtilisateurNonTrouve
  | UtilisateurExisteDeja | EmailOuMotDePasseIncorrect | DeconnexionReussie
  | ProfilMisAJour | RechercheTropCourte
  | PostCree | PostNonTrouve | PostModifierPropres | PostMisAJour | PostSupprimerPropres
  | PostSupprime | PostLike | LikeRetire | CommentaireAjoute
  | AuthentificationRequise | ProduitNonTrouve | ProduitCree | ProduitModifierPropres
  | ProduitMisAJour | ProduitSupprimerPropres | ProduitSupprime | ProduitMarqueVendu
  | SalleCreee | SalleNonTrouvee | AccesNonAutorise | SalleTerminee | DejaDansSalle
  | SallePleine | MotDePasseIncorrect | SalleRejointe | PasDansSalle | SalleQuittee
  | SeulHoteTerminer | SalleDejaTerminee | SalleTermineeSucces | SeulHoteModifier
  | ImpossibleModifierTerminee | SalleMiseAJour

text \<open>An exception: \<^verbatim>\<open>throw new Error(message)\<close>, or the one \<^verbatim>\<open>jwt.verify\<close> threw.\<close>

datatype exn = Error message | VerifyException

text \<open>
  \<^verbatim>\<open>{...room, password: p, participantCount: n}\<close>: the room with its password field
  overwritten, and the count.
\<close>

record room_view =
  rv_room :: room
  rv_participantCount :: nat

text \<open>\<^verbatim>\<open>{...post, likesCount, commentsCount}\<close>\<close>

record post_view =
  pv_post :: post
  pv_likesCount :: nat
  pv_commentsCount :: nat

text \<open>
  \<^verbatim>\<open>totalPages\<close> is \<^verbatim>\<open>Math.ceil(total / limit)\<close>; it is \<open>None\<close> when the division
  is by zero (\<^verbatim>\<open>NaN\<close> or \<^verbatim>\<open>Infinity\<close> in the source).
\<close>

record pagination =
  pg_page :: real
  pg_limit :: real
  pg_total :: nat
  pg_totalPages :: "int option"

definition totalPages :: "nat \<Rightarrow> real \<Rightarrow> int option" where
  "totalPages n l = (if l = 0 then None else Some \<lceil>real n / l\<rceil>)"

text \<open>The fields a handler returns beside \<^verbatim>\<open>success: true\<close> and the message.\<close>

datatype payload =
    NoPayload
  | UserPayload user_ref
  | UserTokenPayload user_ref string
  | UsersPayload "user_ref list" nat
  | SuggestionsPayload "user_ref list"
  | PostPayload post
  | PostViewPayload post_view
  | PostsPayload "post_view list" pagination
  | LikePayload bool nat
  | CommentPayload comment
  | CommentsPayload "comment list"
  | ProductPayload product
  | ProductsPayload "product list" pagination
  | SellerProductsPayload "product list" nat
  | CategoriesPayload "string list"
  | RoomPayload room
  | RoomViewPayload room_view
  | RoomsPayload "room_view list" nat
  | RoomHistoryPayload "room_view list" pagination

text \<open>
  The tagged object a handler returns: \<^verbatim>\<open>{error: true, message}\<close> or
  \<^verbatim>\<open>{success: true, ...payload, message?}\<close>.
\<close>

datatype response = ErrorResponse message | Success payload "message option"

fun is_error :: "response \<Rightarrow> bool" where
  "is_error (ErrorResponse m) = True"
| "is_error (Success p m) = False"

text \<open>\<^verbatim>\<open>r.id\<close> of the \<^verbatim>\<open>User\<close> object behind a reference.\<close>

definition uid :: "state \<Rightarrow> user_ref \<Rightarrow> string" where
  "uid st r = u_id (users st ! r)"

text \<open>
  \<^verbatim>\<open>const x = xs.find(P)\<close> followed by assignments to \<open>x\<close>: the first element that
  satisfies \<open>P\<close> is updated in place, every other element and the order are kept.
\<close>

fun modify_first :: "('a \<Rightarrow> bool) \<Rightarrow> ('a \<Rightarrow> 'a) \<Rightarrow> 'a list \<Rightarrow> 'a list" where
  "modify_first P f [] = []"
| "modify_first P f (x # xs) = (if P x then f x # xs else x # modify_first P f xs)"

text \<open>\<^verbatim>\<open>xs[i]\<close>: \<^verbatim>\<open>undefined\<close> out of range.\<close>

fun nth_opt :: "'a list \<Rightarrow> nat \<Rightarrow> 'a option" where
  "nth_opt [] i = None"
| "nth_opt (x # xs) 0 = Some x"
| "nth_opt (x # xs) (Suc i) = nth_opt xs i"

text \<open>
  \<^verbatim>\<open>Object.assign(target, {...body, updatedAt})\<close>, field by field: a key of the body
  overwrites the target's field, an absent key leaves it.
\<close>

definition assign :: "'a option \<Rightarrow> 'a \<Rightarrow> 'a" where
  "assign new old = (case new of None \<Rightarrow> old | Some v \<Rightarrow> v)"

definition assign_opt :: "'a option \<Rightarrow> 'a option \<Rightarrow> 'a option" where
  "assign_opt new old = (case new of None \<Rightarrow> old | Some v \<Rightarrow> Some v)"

section \<open>Authentication middleware\<close>

text \<open>
  The \<^verbatim>\<open>.derive\<close> of routes/video.ts, routes/posts.ts and routes/users.ts: it throws on
  a missing token, an invalid token and an unknown user, and otherwise yields
  \<^verbatim>\<open>currentUser\<close>, the first user with the payload's id.
\<close>

definition derive_auth :: "env \<Rightarrow> string option \<Rightarrow> state \<Rightarrow> exn + user_ref" where
  "derive_auth e bearer st =
     (case bearer of
        None \<Rightarrow> Inl (Error TokenManquant)
      | Some b \<Rightarrow>
          if b = [] then Inl (Error TokenManquant)
          else (case jwt_verify e b of
                  VerifyThrows \<Rightarrow> Inl VerifyException
                | VerifyFalse \<Rightarrow> Inl (Error TokenInvalide)
                | VerifyPayload userId \<Rightarrow>
                    (case findIndex (\<lambda>u. Some (u_id u) = userId) (users st) of
                       None \<Rightarrow> Inl (Error UtilisateurNonTrouve)
                     | Some i \<Rightarrow> Inr i)))"

text \<open>
  The \<^verbatim>\<open>.derive\<close> of routes/marketplace.ts ("optionnel pour certaines routes"): it
  never throws, \<^verbatim>\<open>currentUser\<close> is \<^verbatim>\<open>null\<close> on every failure.
\<close>

definition derive_optional :: "env \<Rightarrow> string option \<Rightarrow> state \<Rightarrow> user_ref option" where
  "derive_optional e bearer st =
     (case bearer of
        None \<Rightarrow> None
      | Some b \<Rightarrow>
          if b = [] then None
          else (case jwt_verify e b of
                  VerifyThrows \<Rightarrow> None
                | VerifyFalse \<Rightarrow> None
                | VerifyPayload userId \<Rightarrow>
                    findIndex (\<lambda>u. Some (u_id u) = userId) (users st)))"

section \<open>Handlers of routes/video.ts\<close>

definition view_room :: "string option \<Rightarrow> room \<Rightarrow> room_view" where
  "view_room pw r =
     \<lparr>rv_room = r\<lparr>room_password := pw\<rparr>, rv_participantCount = length (room_participants r)\<rparr>"

definition has_id :: "string \<Rightarrow> room \<Rightarrow> bool" where
  "has_id rid r = (room_id r = rid)"

definition create_room :: "env \<Rightarrow> user_ref \<Rightarrow> createRoomRequest \<Rightarrow> state \<Rightarrow> response \<times> state" where
  "create_room e currentUser body st =
     (let newRoom = \<lparr>room_id = randomUUID e, room_name = crr_name body,
            room_description = crr_description body, room_host = currentUser,
            room_participants = [currentUser], room_isPrivate = crr_isPrivate body,
            room_maxParticipants = crr_maxParticipants body, room_password = crr_password body,
            room_status = Waiting, room_createdAt = now e, room_updatedAt = now e,
            room_endedAt = None\<rparr>
      in (Success (RoomPayload newRoom) (Some SalleCreee),
          st\<lparr>videoRooms := newRoom # videoRooms st\<rparr>))"

definition list_rooms :: "room_status option \<Rightarrow> state \<Rightarrow> response" where
  "list_rooms status st =
     (let wanted = (case status of None \<Rightarrow> Waiting | Some s \<Rightarrow> s);
          publicRooms = map (view_room None)
            (filter (\<lambda>r. \<not> room_isPrivate r \<and> room_status r = wanted) (videoRooms st))
      in Success (RoomsPayload publicRooms (length publicRooms)) None)"

definition get_room :: "user_ref \<Rightarrow> string \<Rightarrow> state \<Rightarrow> response" where
  "get_room currentUser rid st =
     (case find (has_id rid) (videoRooms st) of
        None \<Rightarrow> ErrorResponse SalleNonTrouvee
      | Some r \<Rightarrow>
          if room_isPrivate r
             \<and> \<not> list_ex (\<lambda>p. uid st p = uid st currentUser) (room_participants r)
             \<and> \<not> uid st (room_host r) = uid st currentUser
          then ErrorResponse AccesNonAutorise
          else Success (RoomViewPayload (view_room
                 (if uid st (room_host r) = uid st currentUser then room_password r else None) r))
                 None)"

definition join_room ::
  "env \<Rightarrow> user_ref \<Rightarrow> string \<Rightarrow> string option \<Rightarrow> state \<Rightarrow> response \<times> state" where
  "join_room e currentUser rid password st =
     (case find (has_id rid) (videoRooms st) of
        None \<Rightarrow> (ErrorResponse SalleNonTrouvee, st)
      | Some r \<Rightarrow>
          if room_status r = Ended then (ErrorResponse SalleTerminee, st)
          else if list_ex (\<lambda>p. uid st p = uid st currentUser) (room_participants r)
          then (Success (RoomPayload r) (Some DejaDansSalle), st)
          else if real (length (room_participants r)) \<ge> room_maxParticipants r
          then (ErrorResponse SallePleine, st)
          else if truthy (room_password r) \<and> (\<not> truthy password \<or> password \<noteq> room_password r)
          then (ErrorResponse MotDePasseIncorrect, st)
          else
            (let r1 = r\<lparr>room_participants := room_participants r @ [currentUser],
                        room_updatedAt := now e\<rparr>;
                 r2 = (if length (room_participants r1) = 2 \<and> room_status r1 = Waiting
                       then r1\<lparr>room_status := Active\<rparr> else r1)
             in (Success (RoomViewPayload (view_room None r2)) (Some SalleRejointe),
                 st\<lparr>videoRooms := modify_first (has_id rid) (\<lambda>_. r2) (videoRooms st)\<rparr>)))"

definition leave_room :: "env \<Rightarrow> user_ref \<Rightarrow> string \<Rightarrow> state \<Rightarrow> response \<times> state" where
  "leave_room e currentUser rid st =
     (case find (has_id rid) (videoRooms st) of
        None \<Rightarrow> (ErrorResponse SalleNonTrouvee, st)
      | Some r \<Rightarrow>
          (case findIndex (\<lambda>p. uid st p = uid st currentUser) (room_participants r) of
             None \<Rightarrow> (ErrorResponse PasDansSalle, st)
           | Some participantIndex \<Rightarrow>
               (let r1 = r\<lparr>room_participants := splice1 participantIndex (room_participants r),
                           room_updatedAt := now e\<rparr>;
                    r2 = (if uid st (room_host r1) = uid st currentUser
                          then (case room_participants r1 of
                                  newHost # _ \<Rightarrow> r1\<lparr>room_host := newHost\<rparr>
                                | [] \<Rightarrow> r1\<lparr>room_status := Ended, room_endedAt := Some (now e)\<rparr>)
                          else r1);
                    r3 = (if length (room_participants r2) = 0
                          then r2\<lparr>room_status := Ended, room_endedAt := Some (now e)\<rparr>
                          else r2)
                in (Success NoPayload (Some SalleQuittee),
                    st\<lparr>videoRooms := modify_first (has_id rid) (\<lambda>_. r3) (videoRooms st)\<rparr>))))"

definition end_room :: "env \<Rightarrow> user_ref \<Rightarrow> string \<Rightarrow> state \<Rightarrow> response \<times> state" where
  "end_room e currentUser rid st =
     (case find (has_id rid) (videoRooms st) of
        None \<Rightarrow> (ErrorResponse SalleNonTrouvee, st)
      | Some r \<Rightarrow>
          if uid st (room_host r) \<noteq> uid st currentUser then (ErrorResponse SeulHoteTerminer, st)
          else if room_status r = Ended then (ErrorResponse SalleDejaTerminee, st)
          else
            (let r1 = r\<lparr>room_status := Ended, room_endedAt := Some (now e),
                        room_updatedAt := now e\<rparr>
             in (Success (RoomPayload r1) (Some SalleTermineeSucces),
                 st\<lparr>videoRooms := modify_first (has_id rid) (\<lambda>_. r1) (videoRooms st)\<rparr>)))"

definition history :: "user_ref \<Rightarrow> real option \<Rightarrow> real option \<Rightarrow> state \<Rightarrow> response" where
  "history currentUser page limit st =
     (let pageNumber = (case page of None \<Rightarrow> 1 | Some n \<Rightarrow> n);
          limitNumber = (case limit of None \<Rightarrow> 20 | Some n \<Rightarrow> n);
          userRooms = filter (\<lambda>r. uid st (room_host r) = uid st currentUser
            \<or> list_ex (\<lambda>p. uid st p = uid st currentUser) (room_participants r)) (videoRooms st);
          startIndex = (pageNumber - 1) * limitNumber;
          endIndex = startIndex + limitNumber;
          paginatedRooms = slice (to_integer startIndex) (to_integer endIndex) userRooms
      in Success (RoomHistoryPayload (map (view_room None) paginatedRooms)
           \<lparr>pg_page = pageNumber, pg_limit = limitNumber, pg_total = length userRooms,
            pg_totalPages = totalPages (length userRooms) limitNumber\<rparr>) None)"

definition merge_room :: "env \<Rightarrow> updateRoomRequest \<Rightarrow> room \<Rightarrow> room" where
  "merge_room e updateData r =
     r\<lparr>room_name := assign (urr_name updateData) (room_name r),
       room_description := assign_opt (urr_description updateData) (room_description r),
       room_isPrivate := assign (urr_isPrivate updateData) (room_isPrivate r),
       room_maxParticipants := assign (urr_maxParticipants updateData) (room_maxParticipants r),
       room_password := assign_opt (urr_password updateData) (room_password r),
       room_updatedAt := now e\<rparr>"

definition update_room ::
  "env \<Rightarrow> user_ref \<Rightarrow> string \<Rightarrow> updateRoomRequest \<Rightarrow> state \<Rightarrow> response \<times> state" where
  "update_room e currentUser rid updateData st =
     (case find (has_id rid) (videoRooms st) of
        None \<Rightarrow> (ErrorResponse SalleNonTrouvee, st)
      | Some r \<Rightarrow>
          if uid st (room_host r) \<noteq> uid st currentUser then (ErrorResponse SeulHoteModifier, st)
          else if room_status r = Ended then (ErrorResponse ImpossibleModifierTerminee, st)
          else
            (let r1 = merge_room e updateData r
             in (Success (RoomViewPayload (view_room (room_password r1) r1)) (Some SalleMiseAJour),
                 st\<lparr>videoRooms := modify_first (has_id rid) (\<lambda>_. r1) (videoRooms st)\<rparr>)))"

section \<open>Handlers of routes/posts.ts\<close>

definition view_post :: "post \<Rightarrow> post_view" where
  "view_post p = \<lparr>pv_post = p, pv_likesCount = length (post_likes p),
     pv_commentsCount = length (post_comments p)\<rparr>"

definition is_post :: "string \<Rightarrow> post \<Rightarrow> bool" where
  "is_post pid p = (post_id p = pid)"

definition create_post :: "env \<Rightarrow> user_ref \<Rightarrow> createPostRequest \<Rightarrow> state \<Rightarrow> response \<times> state" where
  "create_post e currentUser body st =
     (let newPost = \<lparr>post_id = randomUUID e, post_content = cpr_content body,
            post_author = currentUser,
            post_images = Some (case cpr_images body of None \<Rightarrow> [] | Some is \<Rightarrow> is),
            post_likes = [], post_comments = [], post_createdAt = now e,
            post_updatedAt = now e\<rparr>
      in (Success (PostPayload newPost) (Some PostCree), st\<lparr>posts := newPost # posts st\<rparr>))"

definition list_posts :: "real option \<Rightarrow> real option \<Rightarrow> state \<Rightarrow> response" where
  "list_posts page limit st =
     (let pageNum = (case page of None \<Rightarrow> 1 | Some n \<Rightarrow> n);
          limitNum = (case limit of None \<Rightarrow> 20 | Some n \<Rightarrow> n);
          startIndex = (pageNum - 1) * limitNum;
          endIndex = startIndex + limitNum;
          paginatedPosts = map view_post (slice (to_integer startIndex) (to_integer endIndex) (posts st))
      in Success (PostsPayload paginatedPosts
           \<lparr>pg_page = pageNum, pg_limit = limitNum, pg_total = length (posts st),
            pg_totalPages = totalPages (length (posts st)) limitNum\<rparr>) None)"

definition get_post :: "string \<Rightarrow> state \<Rightarrow> response" where
  "get_post pid st =
     (case find (is_post pid) (posts st) of
        None \<Rightarrow> ErrorResponse PostNonTrouve
      | Some p \<Rightarrow> Success (PostViewPayload (view_post p)) None)"

definition update_post ::
  "env \<Rightarrow> user_ref \<Rightarrow> string \<Rightarrow> createPostRequest \<Rightarrow> state \<Rightarrow> response \<times> state" where
  "update_post e currentUser pid body st =
     (case find (is_post pid) (posts st) of
        None \<Rightarrow> (ErrorResponse PostNonTrouve, st)
      | Some p \<Rightarrow>
          if uid st (post_author p) \<noteq> uid st currentUser
          then (ErrorResponse PostModifierPropres, st)
          else
            (let p1 = p\<lparr>post_content := cpr_content body,
                        post_images := assign_opt (cpr_images body) (post_images p),
                        post_updatedAt := now e\<rparr>
             in (Success (PostPayload p1) (Some PostMisAJour),
                 st\<lparr>posts := modify_first (is_post pid) (\<lambda>_. p1) (posts st)\<rparr>)))"

definition delete_post :: "user_ref \<Rightarrow> string \<Rightarrow> state \<Rightarrow> response \<times> state" where
  "delete_post currentUser pid st =
     (case findIndex (is_post pid) (posts st) of
        None \<Rightarrow> (ErrorResponse PostNonTrouve, st)
      | Some postIndex \<Rightarrow>
          (case nth_opt (posts st) postIndex of
             None \<Rightarrow> (ErrorResponse PostSupprimerPropres, st)
           | Some p \<Rightarrow>
               if uid st (post_author p) \<noteq> uid st currentUser
               then (ErrorResponse PostSupprimerPropres, st)
               else (Success NoPayload (Some PostSupprime),
                     st\<lparr>posts := splice1 postIndex (posts st)\<rparr>)))"

definition like_post :: "user_ref \<Rightarrow> string \<Rightarrow> state \<Rightarrow> response \<times> state" where
  "like_post currentUser pid st =
     (case find (is_post pid) (posts st) of
        None \<Rightarrow> (ErrorResponse PostNonTrouve, st)
      | Some p \<Rightarrow>
          (case findIndex (\<lambda>l. l = uid st currentUser) (post_likes p) of
             None \<Rightarrow>
               (let p1 = p\<lparr>post_likes := post_likes p @ [uid st currentUser]\<rparr>
                in (Success (LikePayload True (length (post_likes p1))) (Some PostLike),
                    st\<lparr>posts := modify_first (is_post pid) (\<lambda>_. p1) (posts st)\<rparr>))
           | Some userLikeIndex \<Rightarrow>
               (let p1 = p\<lparr>post_likes := splice1 userLikeIndex (post_likes p)\<rparr>
                in (Success (LikePayload False (length (post_likes p1))) (Some LikeRetire),
                    st\<lparr>posts := modify_first (is_post pid) (\<lambda>_. p1) (posts st)\<rparr>))))"

definition add_comment :: "env \<Rightarrow> user_ref \<Rightarrow> string \<Rightarrow> string \<Rightarrow> state \<Rightarrow> response \<times> state" where
  "add_comment e currentUser pid content st =
     (case find (is_post pid) (posts st) of
        None \<Rightarrow> (ErrorResponse PostNonTrouve, st)
      | Some p \<Rightarrow>
          (let newComment = \<lparr>comment_id = randomUUID e, comment_content = content,
                 comment_author = currentUser, comment_postId = pid,
                 comment_createdAt = now e, comment_updatedAt = now e\<rparr>;
               p1 = p\<lparr>post_comments := post_comments p @ [newComment]\<rparr>
           in (Success (CommentPayload newComment) (Some CommentaireAjoute),
               st\<lparr>posts := modify_first (is_post pid) (\<lambda>_. p1) (posts st)\<rparr>)))"

definition get_comments :: "string \<Rightarrow> state \<Rightarrow> response" where
  "get_comments pid st =
     (case find (is_post pid) (posts st) of
        None \<Rightarrow> ErrorResponse PostNonTrouve
      | Some p \<Rightarrow> Success (CommentsPayload (post_comments p)) None)"

section \<open>Handlers of routes/marketplace.ts\<close>

definition is_product :: "string \<Rightarrow> product \<Rightarrow> bool" where
  "is_product pid p = (prod_id p = pid)"

text \<open>
  The value of \<^verbatim>\<open>a[sortBy]\<close> as the comparator of \<^verbatim>\<open>GET /\<close> uses it. A
  \<^verbatim>\<open>Date\<close> compares by its time value, an array by its \<^verbatim>\<open>toString()\<close> (the elements
  joined by commas), and \<open>JObject\<close> stands for a value whose string conversion is the same
  for every product: the seller object, and the members every object inherits from
  \<^verbatim>\<open>Object.prototype\<close>.
\<close>

datatype jsval = JUndefined | JString string | JNumber real | JDate date
  | JArray "string list" | JObject

fun condition_string :: "condition \<Rightarrow> string" where
  "condition_string New = ''new''"
| "condition_string LikeNew = ''like-new''"
| "condition_string Good = ''good''"
| "condition_string Fair = ''fair''"
| "condition_string Poor = ''poor''"

fun status_string :: "product_status \<Rightarrow> string" where
  "status_string Available = ''available''"
| "status_string Sold = ''sold''"
| "status_string Reserved = ''reserved''"

definition object_prototype_keys :: "string list" where
  "object_prototype_keys = [''constructor'', ''hasOwnProperty'', ''isPrototypeOf'',
     ''propertyIsEnumerable'', ''toLocaleString'', ''toString'', ''valueOf'', ''__proto__'',
     ''__defineGetter__'', ''__defineSetter__'', ''__lookupGetter__'', ''__lookupSetter__'']"

definition product_field :: "string \<Rightarrow> product \<Rightarrow> jsval" where
  "product_field k p =
     (if k = ''id'' then JString (prod_id p)
      else if k = ''title'' then JString (prod_title p)
      else if k = ''description'' then JString (prod_description p)
      else if k = ''price'' then JNumber (prod_price p)
      else if k = ''currency'' then JString (prod_currency p)
      else if k = ''category'' then JString (prod_category p)
      else if k = ''condition'' then JString (condition_string (prod_condition p))
      else if k = ''images'' then JArray (prod_images p)
      else if k = ''seller'' then JObject
      else if k = ''location'' then
        (case prod_location p of None \<Rightarrow> JUndefined | Some l \<Rightarrow> JString l)
      else if k = ''status'' then JString (status_string (prod_status p))
      else if k = ''tags'' then JArray (prod_tags p)
      else if k = ''createdAt'' then JDate (prod_createdAt p)
      else if k = ''updatedAt'' then JDate (prod_updatedAt p)
      else if k \<in> set object_prototype_keys then JObject
      else JUndefined)"

fun join_comma :: "string list \<Rightarrow> string" where
  "join_comma [] = []"
| "join_comma [x] = x"
| "join_comma (x # y # ys) = x @ '','' @ join_comma (y # ys)"

text \<open>
  \<^verbatim>\<open>a < b\<close> on two values of the same field: strings by code units, numbers and dates
  by value, arrays by their string conversion; two objects convert to equal strings. The
  comparator never compares values of two different kinds.
\<close>

fun js_less :: "jsval \<Rightarrow> jsval \<Rightarrow> bool" where
  "js_less (JString a) (JString b) = (a < b)"
| "js_less (JNumber a) (JNumber b) = (a < b)"
| "js_less (JDate a) (JDate b) = (a < b)"
| "js_less (JArray a) (JArray b) = (join_comma a < join_comma b)"
| "js_less _ _ = False"

definition compare_products :: "string \<Rightarrow> sort_order \<Rightarrow> product \<Rightarrow> product \<Rightarrow> int" where
  "compare_products sortBy sortOrder a b =
     (let aValue = product_field sortBy a; bValue = product_field sortBy b
      in if aValue = JUndefined \<and> bValue = JUndefined then 0
         else if aValue = JUndefined then 1
         else if bValue = JUndefined then - 1
         else if sortOrder = Asc then (if js_less bValue aValue then 1 else - 1)
         else (if js_less aValue bValue then 1 else - 1))"

text \<open>The filters of \<^verbatim>\<open>GET /\<close>, applied in the source's order.\<close>

definition matches_search :: "env \<Rightarrow> string \<Rightarrow> product \<Rightarrow> bool" where
  "matches_search e search p =
     (let searchTerm = toLowerCase e search
      in includes_str (toLowerCase e (prod_title p)) searchTerm
         \<or> includes_str (toLowerCase e (prod_description p)) searchTerm
         \<or> list_ex (\<lambda>tag. includes_str (toLowerCase e tag) searchTerm) (prod_tags p))"

definition filter_products :: "env \<Rightarrow> listQuery \<Rightarrow> product list \<Rightarrow> product list" where
  "filter_products e q ps =
     (let status = (case q_status q of None \<Rightarrow> Available | Some s \<Rightarrow> s);
          f0 = filter (\<lambda>p. prod_status p = status) ps;
          f1 = (if truthy (q_category q)
                then filter (\<lambda>p. Some (prod_category p) = q_category q) f0 else f0);
          f2 = (case q_minPrice q of None \<Rightarrow> f1
                | Some m \<Rightarrow> filter (\<lambda>p. prod_price p \<ge> m) f1);
          f3 = (case q_maxPrice q of None \<Rightarrow> f2
                | Some m \<Rightarrow> filter (\<lambda>p. prod_price p \<le> m) f2);
          f4 = (case q_condition q of None \<Rightarrow> f3
                | Some c \<Rightarrow> filter (\<lambda>p. prod_condition p = c) f3);
          f5 = (case q_search q of None \<Rightarrow> f4
                | Some s \<Rightarrow> if s = [] then f4 else filter (matches_search e s) f4)
      in f5)"

definition sorted_products :: "env \<Rightarrow> listQuery \<Rightarrow> state \<Rightarrow> product list" where
  "sorted_products e q st =
     (let sortBy = (case q_sortBy q of None \<Rightarrow> ''createdAt'' | Some k \<Rightarrow> k);
          sortOrder = (case q_sortOrder q of None \<Rightarrow> Desc | Some d \<Rightarrow> d)
      in array_sort e (compare_products sortBy sortOrder) (filter_products e q (products st)))"

definition list_products :: "env \<Rightarrow> listQuery \<Rightarrow> state \<Rightarrow> response" where
  "list_products e q st =
     (let page = (case q_page q of None \<Rightarrow> 1 | Some n \<Rightarrow> n);
          limit = (case q_limit q of None \<Rightarrow> 20 | Some n \<Rightarrow> n);
          filteredProducts = sorted_products e q st;
          startIndex = (page - 1) * limit;
          endIndex = startIndex + limit;
          paginatedProducts = slice (to_integer startIndex) (to_integer endIndex) filteredProducts
      in Success (ProductsPayload paginatedProducts
           \<lparr>pg_page = page, pg_limit = limit, pg_total = length filteredProducts,
            pg_totalPages = totalPages (length filteredProducts) limit\<rparr>) None)"

definition get_product :: "string \<Rightarrow> state \<Rightarrow> response" where
  "get_product pid st =
     (case find (is_product pid) (products st) of
        None \<Rightarrow> ErrorResponse ProduitNonTrouve
      | Some p \<Rightarrow> Success (ProductPayload p) None)"

definition create_product ::
  "env \<Rightarrow> user_ref option \<Rightarrow> createProductRequest \<Rightarrow> state \<Rightarrow> response \<times> state" where
  "create_product e currentUser productData st =
     (case currentUser of
        None \<Rightarrow> (ErrorResponse AuthentificationRequise, st)
      | Some cu \<Rightarrow>
          (let newProduct = \<lparr>prod_id = randomUUID e, prod_title = cpq_title productData,
                 prod_description = cpq_description productData,
                 prod_price = cpq_price productData, prod_currency = cpq_currency productData,
                 prod_category = cpq_category productData,
                 prod_condition = cpq_condition productData,
                 prod_images = cpq_images productData, prod_seller = cu,
                 prod_location = cpq_location productData, prod_status = Available,
                 prod_tags = cpq_tags productData, prod_createdAt = now e,
                 prod_updatedAt = now e\<rparr>
           in (Success (ProductPayload newProduct) (Some ProduitCree),
               st\<lparr>products := newProduct # products st\<rparr>)))"

definition merge_product :: "env \<Rightarrow> updateProductRequest \<Rightarrow> product \<Rightarrow> product" where
  "merge_product e updateData p =
     p\<lparr>prod_title := assign (upq_title updateData) (prod_title p),
       prod_description := assign (upq_description updateData) (prod_description p),
       prod_price := assign (upq_price updateData) (prod_price p),
       prod_condition := assign (upq_condition updateData) (prod_condition p),
       prod_images := assign (upq_images updateData) (prod_images p),
       prod_location := assign_opt (upq_location updateData) (prod_location p),
       prod_status := assign (upq_status updateData) (prod_status p),
       prod_tags := assign (upq_tags updateData) (prod_tags p),
       prod_updatedAt := now e\<rparr>"

definition update_product ::
  "env \<Rightarrow> user_ref option \<Rightarrow> string \<Rightarrow> updateProductRequest \<Rightarrow> state \<Rightarrow> response \<times> state" where
  "update_product e currentUser pid updateData st =
     (case currentUser of
        None \<Rightarrow> (ErrorResponse AuthentificationRequise, st)
      | Some cu \<Rightarrow>
          (case find (is_product pid) (products st) of
             None \<Rightarrow> (ErrorResponse ProduitNonTrouve, st)
           | Some p \<Rightarrow>
               if uid st (prod_seller p) \<noteq> uid st cu
               then (ErrorResponse ProduitModifierPropres, st)
               else
                 (let p1 = merge_product e updateData p
                  in (Success (ProductPayload p1) (Some ProduitMisAJour),
                      st\<lparr>products := modify_first (is_product pid) (\<lambda>_. p1) (products st)\<rparr>))))"

definition delete_product :: "user_ref option \<Rightarrow> string \<Rightarrow> state \<Rightarrow> response \<times> state" where
  "delete_product currentUser pid st =
     (case currentUser of
        None \<Rightarrow> (ErrorResponse AuthentificationRequise, st)
      | Some cu \<Rightarrow>
          (case findIndex (is_product pid) (products st) of
             None \<Rightarrow> (ErrorResponse ProduitNonTrouve, st)
           | Some productIndex \<Rightarrow>
               (case nth_opt (products st) productIndex of
                  None \<Rightarrow> (ErrorResponse ProduitSupprimerPropres, st)
                | Some p \<Rightarrow>
                    if uid st (prod_seller p) \<noteq> uid st cu
                    then (ErrorResponse ProduitSupprimerPropres, st)
                    else (Success NoPayload (Some ProduitSupprime),
                          st\<lparr>products := splice1 productIndex (products st)\<rparr>))))"

definition seller_products :: "string \<Rightarrow> state \<Rightarrow> response" where
  "seller_products sellerId st =
     (let sellerProducts = filter (\<lambda>p. uid st (prod_seller p) = sellerId) (products st)
      in Success (SellerProductsPayload sellerProducts (length sellerProducts)) None)"

definition categories :: "state \<Rightarrow> response" where
  "categories st = Success (CategoriesPayload (uniq (map prod_category (products st)))) None"

definition mark_sold :: "env \<Rightarrow> user_ref option \<Rightarrow> string \<Rightarrow> state \<Rightarrow> response \<times> state" where
  "mark_sold e currentUser pid st =
     (case currentUser of
        None \<Rightarrow> (ErrorResponse AuthentificationRequise, st)
      | Some cu \<Rightarrow>
          (case find (is_product pid) (products st) of
             None \<Rightarrow> (ErrorResponse ProduitNonTrouve, st)
           | Some p \<Rightarrow>
               if uid st (prod_seller p) \<noteq> uid st cu
               then (ErrorResponse ProduitModifierPropres, st)
               else
                 (let p1 = p\<lparr>prod_status := Sold, prod_updatedAt := now e\<rparr>
                  in (Success (ProductPayload p1) (Some ProduitMarqueVendu),
                      st\<lparr>products := modify_first (is_product pid) (\<lambda>_. p1) (products st)\<rparr>))))"

section \<open>Handlers of routes/users.ts\<close>

definition get_me :: "user_ref \<Rightarrow> response" where
  "get_me currentUser = Success (UserPayload currentUser) None"

definition get_user :: "string \<Rightarrow> state \<Rightarrow> response" where
  "get_user i st =
     (case findIndex (\<lambda>u. u_id u = i) (users st) of
        None \<Rightarrow> ErrorResponse UtilisateurNonTrouve
      | Some r \<Rightarrow> Success (UserPayload r) None)"

definition merge_user :: "env \<Rightarrow> updateProfileRequest \<Rightarrow> user \<Rightarrow> user" where
  "merge_user e updateData u =
     u\<lparr>u_firstName := assign (upr_firstName updateData) (u_firstName u),
       u_lastName := assign (upr_lastName updateData) (u_lastName u),
       u_bio := assign_opt (upr_bio updateData) (u_bio u),
       u_location := assign_opt (upr_location updateData) (u_location u),
       u_website := assign_opt (upr_website updateData) (u_website u),
       u_avatar := assign_opt (upr_avatar updateData) (u_avatar u),
       u_updatedAt := now e\<rparr>"

text \<open>
  \<^verbatim>\<open>Object.assign(currentUser, ...)\<close> writes to the object behind the reference, an
  element of \<^verbatim>\<open>users\<close>.
\<close>

definition update_profile ::
  "env \<Rightarrow> user_ref \<Rightarrow> updateProfileRequest \<Rightarrow> state \<Rightarrow> response \<times> state" where
  "update_profile e currentUser updateData st =
     (Success (UserPayload currentUser) (Some ProfilMisAJour),
      st\<lparr>users := (users st)[currentUser := merge_user e updateData (users st ! currentUser)]\<rparr>)"

definition matches_user :: "env \<Rightarrow> string \<Rightarrow> user \<Rightarrow> bool" where
  "matches_user e searchTerm u =
     (includes_str (toLowerCase e (u_firstName u)) searchTerm
      \<or> includes_str (toLowerCase e (u_lastName u)) searchTerm
      \<or> includes_str (toLowerCase e (u_username u)) searchTerm)"

definition search_users :: "env \<Rightarrow> string \<Rightarrow> string option \<Rightarrow> state \<Rightarrow> response" where
  "search_users e q limit st =
     (if length q < 2 then ErrorResponse RechercheTropCourte
      else
        (let searchTerm = toLowerCase e q;
             limitNum = parseInt e (case limit of None \<Rightarrow> ''10'' | Some l \<Rightarrow> l);
             results = slice 0 (case limitNum of None \<Rightarrow> 0 | Some n \<Rightarrow> n)
               (filter (\<lambda>r. matches_user e searchTerm (users st ! r)) [0..<length (users st)])
         in Success (UsersPayload results (length results)) None))"

definition suggestions :: "user_ref \<Rightarrow> state \<Rightarrow> response" where
  "suggestions currentUser st =
     Success (SuggestionsPayload
       (slice 0 10
         (insertion_sort (\<lambda>a b. int (u_createdAt (users st ! b)) - int (u_createdAt (users st ! a)))
           (filter (\<lambda>r. uid st r \<noteq> uid st currentUser) [0..<length (users st)])))) None"

section \<open>Handlers of routes/auth.ts\<close>

definition register :: "env \<Rightarrow> registerRequest \<Rightarrow> state \<Rightarrow> response \<times> state" where
  "register e body st =
     (if list_ex (\<lambda>u. u_email u = rr_email body \<or> u_username u = rr_username body) (users st)
      then (ErrorResponse UtilisateurExisteDeja, st)
      else
        (let newUser = \<lparr>u_id = randomUUID e, u_email = rr_email body,
               u_username = rr_username body, u_firstName = rr_firstName body,
               u_lastName = rr_lastName body, u_avatar = None, u_bio = None,
               u_location = None, u_website = None, u_createdAt = now e,
               u_updatedAt = now e\<rparr>;
             token = jwt_sign e (u_id newUser) (u_email newUser)
         in (Success (UserTokenPayload (length (users st)) token) None,
             st\<lparr>users := users st @ [newUser],
                userCredentials := (userCredentials st)(rr_email body \<mapsto> rr_password body)\<rparr>)))"

definition login :: "env \<Rightarrow> loginRequest \<Rightarrow> state \<Rightarrow> response" where
  "login e body st =
     (if userCredentials st (lr_email body) \<noteq> Some (lr_password body)
      then ErrorResponse EmailOuMotDePasseIncorrect
      else (case findIndex (\<lambda>u. u_email u = lr_email body) (users st) of
              None \<Rightarrow> ErrorResponse UtilisateurNonTrouve
            | Some r \<Rightarrow>
                Success (UserTokenPayload r
                  (jwt_sign e (u_id (users st ! r)) (u_email (users st ! r)))) None))"

definition verify :: "env \<Rightarrow> string option \<Rightarrow> state \<Rightarrow> response" where
  "verify e bearer st =
     (case bearer of
        None \<Rightarrow> ErrorResponse TokenManquant
      | Some b \<Rightarrow>
          if b = [] then ErrorResponse TokenManquant
          else (case jwt_verify e b of
                  VerifyThrows \<Rightarrow> ErrorResponse TokenInvalide
                | VerifyFalse \<Rightarrow> ErrorResponse TokenInvalide
                | VerifyPayload None \<Rightarrow> ErrorResponse TokenInvalide
                | VerifyPayload (Some userId) \<Rightarrow>
                    (case findIndex (\<lambda>u. u_id u = userId) (users st) of
                       None \<Rightarrow> ErrorResponse UtilisateurNonTrouve
                     | Some r \<Rightarrow> Success (UserPayload r) None)))"

definition logout :: response where
  "logout = Success NoPayload (Some DeconnexionReussie)"

section \<open>The API: one request against the store\<close>

datatype request =
    Register registerRequest | Login loginRequest | Verify | Logout
  | GetMe | GetUser string | UpdateProfile updateProfileRequest
  | SearchUsers string "string option" | Suggestions
  | CreatePost createPostRequest | ListPosts "real option" "real option" | GetPost string
  | UpdatePost string createPostRequest | DeletePost string | LikePost string
  | AddComment string string | GetComments string
  | ListProducts listQuery | GetProduct string | CreateProduct createProductRequest
  | UpdateProduct string updateProductRequest | DeleteProduct string
  | SellerProducts string | Categories | MarkSold string
  | CreateRoom createRoomRequest | ListRooms "room_status option" | GetRoom string
  | JoinRoom string "string option" | LeaveRoom string | EndRoom string
  | History "real option" "real option" | UpdateRoom string updateRoomRequest

datatype route_module = AuthModule | UsersModule | PostsModule | MarketplaceModule | VideoModule

fun module_of :: "request \<Rightarrow> route_module" where
  "module_of (Register b) = AuthModule"
| "module_of (Login b) = AuthModule"
| "module_of Verify = AuthModule"
| "module_of Logout = AuthModule"
| "module_of GetMe = UsersModule"
| "module_of (GetUser i) = UsersModule"
| "module_of (UpdateProfile b) = UsersModule"
| "module_of (SearchUsers q l) = UsersModule"
| "module_of Suggestions = UsersModule"
| "module_of (CreatePost b) = PostsModule"
| "module_of (ListPosts pg l) = PostsModule"
| "module_of (GetPost i) = PostsModule"
| "module_of (UpdatePost i b) = PostsModule"
| "module_of (DeletePost i) = PostsModule"
| "module_of (LikePost i) = PostsModule"
| "module_of (AddComment i c) = PostsModule"
| "module_of (GetComments i) = PostsModule"
| "module_of (ListProducts q) = MarketplaceModule"
| "module_of (GetProduct i) = MarketplaceModule"
| "module_of (CreateProduct b) = MarketplaceModule"
| "module_of (UpdateProduct i b) = MarketplaceModule"
| "module_of (DeleteProduct i) = MarketplaceModule"
| "module_of (SellerProducts i) = MarketplaceModule"
| "module_of Categories = MarketplaceModule"
| "module_of (MarkSold i) = MarketplaceModule"
| "module_of (CreateRoom b) = VideoModule"
| "module_of (ListRooms s) = VideoModule"
| "module_of (GetRoom i) = VideoModule"
| "module_of (JoinRoom i pw) = VideoModule"
| "module_of (LeaveRoom i) = VideoModule"
| "module_of (EndRoom i) = VideoModule"
| "module_of (History pg l) = VideoModule"
| "module_of (UpdateRoom i b) = VideoModule"

text \<open>
  A request ends in an exception or in the object its handler returns, and leaves a
  store. \<open>with_auth\<close> is a route registered behind the throwing \<^verbatim>\<open>.derive\<close>: the
  handler runs only when the middleware has yielded \<^verbatim>\<open>currentUser\<close>.
\<close>

definition respond :: "response \<times> state \<Rightarrow> (exn + response) \<times> state" where
  "respond rs = (Inr (fst rs), snd rs)"

definition with_auth ::
  "env \<Rightarrow> string option \<Rightarrow> state \<Rightarrow> (user_ref \<Rightarrow> response \<times> state) \<Rightarrow> (exn + response) \<times> state" where
  "with_auth e bearer st h =
     (case derive_auth e bearer st of Inl x \<Rightarrow> (Inl x, st) | Inr cu \<Rightarrow> respond (h cu))"

fun handle :: "env \<Rightarrow> string option \<Rightarrow> request \<Rightarrow> state \<Rightarrow> (exn + response) \<times> state" where
  "handle e bearer (Register b) st = respond (register e b st)"
| "handle e bearer (Login b) st = respond (login e b st, st)"
| "handle e bearer Verify st = respond (verify e bearer st, st)"
| "handle e bearer Logout st = respond (logout, st)"
| "handle e bearer GetMe st = with_auth e bearer st (\<lambda>cu. (get_me cu, st))"
| "handle e bearer (GetUser i) st = with_auth e bearer st (\<lambda>cu. (get_user i st, st))"
| "handle e bearer (UpdateProfile b) st =
     with_auth e bearer st (\<lambda>cu. update_profile e cu b st)"
| "handle e bearer (SearchUsers q l) st =
     with_auth e bearer st (\<lambda>cu. (search_users e q l st, st))"
| "handle e bearer Suggestions st = with_auth e bearer st (\<lambda>cu. (suggestions cu st, st))"
| "handle e bearer (CreatePost b) st = with_auth e bearer st (\<lambda>cu. create_post e cu b st)"
| "handle e bearer (ListPosts pg l) st =
     with_auth e bearer st (\<lambda>cu. (list_posts pg l st, st))"
| "handle e bearer (GetPost i) st = with_auth e bearer st (\<lambda>cu. (get_post i st, st))"
| "handle e bearer (UpdatePost i b) st =
     with_auth e bearer st (\<lambda>cu. update_post e cu i b st)"
| "handle e bearer (DeletePost i) st = with_auth e bearer st (\<lambda>cu. delete_post cu i st)"
| "handle e bearer (LikePost i) st = with_auth e bearer st (\<lambda>cu. like_post cu i st)"
| "handle e bearer (AddComment i c) st =
     with_auth e bearer st (\<lambda>cu. add_comment e cu i c st)"
| "handle e bearer (GetComments i) st =
     with_auth e bearer st (\<lambda>cu. (get_comments i st, st))"
| "handle e bearer (ListProducts q) st = respond (list_products e q st, st)"
| "handle e bearer (GetProduct i) st = respond (get_product i st, st)"
| "handle e bearer (CreateProduct b) st =
     respond (create_product e (derive_optional e bearer st) b st)"
| "handle e bearer (UpdateProduct i b) st =
     respond (update_product e (derive_optional e bearer st) i b st)"
| "handle e bearer (DeleteProduct i) st =
     respond (delete_product (derive_optional e bearer st) i st)"
| "handle e bearer (SellerProducts i) st = respond (seller_products i st, st)"
| "handle e bearer Categories st = respond (categories st, st)"
| "handle e bearer (MarkSold i) st =
     respond (mark_sold e (derive_optional e bearer st) i st)"
| "handle e bearer (CreateRoom b) st = with_auth e bearer st (\<lambda>cu. create_room e cu b st)"
| "handle e bearer (ListRooms s) st = with_auth e bearer st (\<lambda>cu. (list_rooms s st, st))"
| "handle e bearer (GetRoom i) st = with_auth e bearer st (\<lambda>cu. (get_room cu i st, st))"
| "handle e bearer (JoinRoom i pw) st =
     with_auth e bearer st (\<lambda>cu. join_room e cu i pw st)"
| "handle e bearer (LeaveRoom i) st = with_auth e bearer st (\<lambda>cu. leave_room e cu i st)"
| "handle e bearer (EndRoom i) st = with_auth e bearer st (\<lambda>cu. end_room e cu i st)"
| "handle e bearer (History pg l) st =
     with_auth e bearer st (\<lambda>cu. (history cu pg l st, st))"
| "handle e bearer (UpdateRoom i b) st =
     with_auth e bearer st (\<lambda>cu. update_room e cu i b st)"

text \<open>The stores that a sequence of requests can produce from the empty ones.\<close>

inductive reachable :: "state \<Rightarrow> bool" where
  reachable_init: "reachable init_state"
| reachable_step: "reachable st \<Longrightarrow> reachable (snd (handle e bearer req st))"

section \<open>Invariants of the reachable stores\<close>

text \<open>Every participant of a room is a reference into \<^verbatim>\<open>users\<close>.\<close>

definition refs_ok :: "state \<Rightarrow> bool" where
  "refs_ok st =
     list_all (\<lambda>r. list_all (\<lambda>p. p < length (users st)) (room_participants r)) (videoRooms st)"

text \<open>No room lists a user id twice.\<close>

definition participants_distinct :: "state \<Rightarrow> bool" where
  "participants_distinct st =
     list_all (\<lambda>r. distinct (map (uid st) (room_participants r))) (videoRooms st)"

text \<open>No post lists a user id twice among its likes.\<close>

definition likes_distinct :: "state \<Rightarrow> bool" where
  "likes_distinct st = list_all (\<lambda>p. distinct (post_likes p)) (posts st)"

text \<open>The three together.\<close>

definition store_ok :: "state \<Rightarrow> bool" where
  "store_ok st = (refs_ok st \<and> participants_distinct st \<and> likes_distinct st)"

section \<open>The marketplace listing, as the specification words it\<close>



text \<open>
  \<open>a\<close> has to stand before \<open>b\<close> in a listing sorted by the field \<open>k\<close> in direction
  \<open>d\<close>: its field is smaller (ascending) or greater (descending), and a product that
  has the field stands before one that lacks it.
\<close>

definition sorts_before :: "string \<Rightarrow> sort_order \<Rightarrow> product \<Rightarrow> product \<Rightarrow> bool" where
  "sorts_before k d a b =
     (product_field k a \<noteq> JUndefined
      \<and> (product_field k b = JUndefined
          \<or> (if d = Asc then js_less (product_field k a) (product_field k b)
              else js_less (product_field k b) (product_field k a))))"










section \<open>Example data\<close>

definition alice :: user where
  "alice = \<lparr>u_id = ''u1'', u_email = ''alice@example.org'', u_username = ''alice'',
     u_firstName = ''Alice'', u_lastName = ''Martin'', u_avatar = None, u_bio = None,
     u_location = None, u_website = None, u_createdAt = 1, u_updatedAt = 1\<rparr>"

definition bob :: user where
  "bob = \<lparr>u_id = ''u2'', u_email = ''bob@example.org'', u_username = ''bob'',
     u_firstName = ''Bob'', u_lastName = ''Durand'', u_avatar = None, u_bio = None,
     u_location = None, u_website = None, u_createdAt = 2, u_updatedAt = 2\<rparr>"

definition carol :: user where
  "carol = \<lparr>u_id = ''u3'', u_email = ''carol@example.org'', u_username = ''carol'',
     u_firstName = ''Carol'', u_lastName = ''Petit'', u_avatar = None, u_bio = None,
     u_location = None, u_website = None, u_createdAt = 3, u_updatedAt = 3\<rparr>"

text \<open>
  An environment in which the token \<^verbatim>\<open>t1\<close> is Alice's, \<^verbatim>\<open>t2\<close> is Bob's and every other
  token is invalid. Its \<^verbatim>\<open>toLowerCase\<close> is the identity, which is right on the lower-case
  strings of the examples, and its \<^verbatim>\<open>sort\<close> is the insertion sort.
\<close>

definition env0 :: env where
  "env0 = \<lparr>now = 50, randomUUID = ''id9'',
     jwt_verify = (\<lambda>t. if t = ''t1'' then VerifyPayload (Some ''u1'')
                        else if t = ''t2'' then VerifyPayload (Some ''u2'') else VerifyFalse),
     jwt_sign = (\<lambda>i m. i), toLowerCase = (\<lambda>s. s), parseInt = (\<lambda>s. None),
     array_sort = insertion_sort\<rparr>"

definition room_ab :: room where
  "room_ab = \<lparr>room_id = ''r1'', room_name = ''standup'', room_description = None,
     room_host = 0, room_participants = [0, 1], room_isPrivate = False,
     room_maxParticipants = 2, room_password = None, room_status = Active,
     room_createdAt = 10, room_updatedAt = 20, room_endedAt = None\<rparr>"

definition book :: product where
  "book = \<lparr>prod_id = ''p1'', prod_title = ''book'', prod_description = ''a novel'',
     prod_price = 5, prod_currency = ''EUR'', prod_category = ''books'', prod_condition = Good,
     prod_images = [], prod_seller = 0, prod_location = None, prod_status = Available,
     prod_tags = [''paper''], prod_createdAt = 30, prod_updatedAt = 30\<rparr>"

definition lamp :: product where
  "lamp = \<lparr>prod_id = ''p2'', prod_title = ''lamp'', prod_description = ''a desk lamp'',
     prod_price = 12, prod_currency = ''EUR'', prod_category = ''home'', prod_condition = New,
     prod_images = [], prod_seller = 1, prod_location = Some ''Lyon'', prod_status = Available,
     prod_tags = [], prod_createdAt = 40, prod_updatedAt = 40\<rparr>"

definition hello_post :: post where
  "hello_post = \<lparr>post_id = ''n1'', post_content = ''hello'', post_author = 0, post_images = Some [],
     post_likes = [], post_comments = [], post_createdAt = 5, post_updatedAt = 5\<rparr>"

definition store_ab :: state where
  "store_ab = \<lparr>users = [alice, bob],
     userCredentials = [''alice@example.org'' \<mapsto> ''secret-a'', ''bob@example.org'' \<mapsto> ''secret-b''],
     posts = [hello_post], products = [book, lamp], videoRooms = [room_ab]\<rparr>"

text \<open>The same store with a third user, who is in no room.\<close>

definition store_abc :: state where
  "store_abc = store_ab\<lparr>users := [alice, bob, carol]\<rparr>"


definition register_alice :: registerRequest where
  "register_alice = \<lparr>rr_email = ''alice@example.org'', rr_username = ''alice'',
     rr_password = ''secret-a'', rr_firstName = ''Alice'', rr_lastName = ''Martin''\<rparr>"

definition register_bob :: registerRequest where
  "register_bob = \<lparr>rr_email = ''bob@example.org'', rr_username = ''bob'',
     rr_password = ''secret-b'', rr_firstName = ''Bob'', rr_lastName = ''Durand''\<rparr>"

definition open_room :: createRoomRequest where
  "open_room = \<lparr>crr_name = ''standup'', crr_description = None, crr_isPrivate = False,
     crr_maxParticipants = 5, crr_password = None\<rparr>"

definition set_password :: updateRoomRequest where
  "set_password = \<lparr>urr_name = None, urr_description = None, urr_isPrivate = None,
     urr_maxParticipants = None, urr_password = Some ''hidden''\<rparr>"

definition sell_book :: createProductRequest where
  "sell_book = \<lparr>cpq_title = ''book'', cpq_description = ''a novel'', cpq_price = 5,
     cpq_currency = ''EUR'', cpq_category = ''books'', cpq_condition = Good, cpq_images = [],
     cpq_location = None, cpq_tags = [''paper'']\<rparr>"

definition say_hello :: createPostRequest where
  "say_hello = \<lparr>cpr_content = ''hello'', cpr_images = None\<rparr>"

text \<open>
  Stores that requests produce from the empty one: Alice and Bob register, then either
  Alice opens a room that Bob joins, or Alice writes a post.
\<close>

definition store_1 :: state where
  "store_1 = snd (handle (env0\<lparr>randomUUID := ''u1''\<rparr>) None (Register register_alice) init_state)"

definition store_2 :: state where
  "store_2 = snd (handle (env0\<lparr>randomUUID := ''u2''\<rparr>) None (Register register_bob) store_1)"

definition store_3 :: state where
  "store_3 = snd (handle (env0\<lparr>randomUUID := ''r1''\<rparr>) (Some ''t1'') (CreateRoom open_room) store_2)"

definition store_p :: state where
  "store_p = snd (handle (env0\<lparr>randomUUID := ''n1''\<rparr>) (Some ''t1'') (CreatePost say_hello) store_2)"

definition store_4 :: state where
  "store_4 = snd (handle env0 (Some ''t2'') (JoinRoom ''r1'' None) store_3)"

text \<open>
  Alice sets a password on the room that Bob has joined; bodies of updates; a query
  whose category is the empty string.
\<close>

definition store_5 :: state where
  "store_5 = snd (handle (env0\<lparr>now := 60\<rparr>) (Some ''t1'') (UpdateRoom ''r1'' set_password) store_4)"

text \<open>Alice ends the room that Bob has joined.\<close>

definition store_ended :: state where
  "store_ended = snd (handle (env0\<lparr>now := 70\<rparr>) (Some ''t1'') (EndRoom ''r1'') store_4)"

definition reprice :: updateProductRequest where
  "reprice = \<lparr>upq_title = None, upq_description = None, upq_price = Some 7,
     upq_condition = None, upq_images = None, upq_location = None, upq_status = None,
     upq_tags = None\<rparr>"

definition add_bio :: updateProfileRequest where
  "add_bio = \<lparr>upr_firstName = None, upr_lastName = None, upr_bio = Some ''hello'',
     upr_location = None, upr_website = None, upr_avatar = None\<rparr>"



section \<open>Facts about the built-ins\<close>

lemma findIndex_Some:
  "findIndex P xs = Some i \<Longrightarrow> i < length xs \<and> P (xs ! i) \<and> (\<forall>j<i. \<not> P (xs ! j))"
proof (induction xs arbitrary: i)
  case Nil
  then show ?case by simp
next
  case (Cons x xs)
  show ?case
  proof (cases "P x")
    case True
    with Cons.prems show ?thesis by simp
  next
    case False
    with Cons.prems obtain k where k: "findIndex P xs = Some k" "i = Suc k"
      by (auto split: option.splits)
    from Cons.IH[OF k(1)] False k(2) show ?thesis
      by (auto simp: less_Suc_eq_0_disj)
  qed
qed

lemma findIndex_None: "findIndex P xs = None \<longleftrightarrow> \<not> list_ex P xs"
  by (induction xs) (auto split: option.splits)

lemma find_modify_first:
  "find P xs = Some x \<Longrightarrow> P y \<Longrightarrow> find P (modify_first P (\<lambda>_. y) xs) = Some y"
  by (induction xs) auto

lemma modify_first_None: "find P xs = None \<Longrightarrow> modify_first P f xs = xs"
  by (induction xs) (auto split: if_splits)

lemma set_modify_first:
  "set (modify_first P (\<lambda>_. y) xs) \<subseteq> insert y (set xs)"
  by (induction xs) auto

lemma length_modify_first: "length (modify_first P f xs) = length xs"
  by (induction xs) auto

lemma find_Some_set: "find P xs = Some x \<Longrightarrow> x \<in> set xs \<and> P x"
  by (induction xs) (auto split: if_splits)

lemma set_splice1: "set (splice1 i xs) \<subseteq> set xs"
  unfolding splice1_def by (auto dest: in_set_takeD in_set_dropD)

lemma length_splice1: "i < length xs \<Longrightarrow> length (splice1 i xs) + 1 = length xs"
  unfolding splice1_def by auto

lemma splice1_beyond: "length xs \<le> i \<Longrightarrow> splice1 i xs = xs"
  unfolding splice1_def by simp

lemma distinct_map_splice1:
  assumes "distinct (map f xs)"
  shows "distinct (map f (splice1 i xs))"
proof (cases "i < length xs")
  case True
  then have xs: "xs = take i xs @ (xs ! i) # drop (Suc i) xs"
    by (simp add: id_take_nth_drop)
  have "distinct (map f (take i xs @ (xs ! i) # drop (Suc i) xs))"
    using assms xs by simp
  then show ?thesis
    unfolding splice1_def by auto
next
  case False
  then show ?thesis using assms by (simp add: splice1_beyond)
qed

lemma removed_not_in_splice1:
  assumes "distinct (map f xs)" "i < length xs"
  shows "f (xs ! i) \<notin> f ` set (splice1 i xs)"
proof -
  have xs: "xs = take i xs @ (xs ! i) # drop (Suc i) xs"
    using assms(2) by (simp add: id_take_nth_drop)
  have "distinct (map f (take i xs @ (xs ! i) # drop (Suc i) xs))"
    using assms(1) xs by simp
  then show ?thesis
    unfolding splice1_def by auto
qed

section \<open>Leaving a room\<close>

text \<open>
  C1. In a room that the id finds, a user \<open>cu\<close> who is one of its participants leaves:
  the handler succeeds; the participants of the room afterwards are the former ones
  without the first entry that has the user's id (one entry fewer), so that, no id being
  listed twice, the user's id is no longer among them; if the user was the host and
  participants remain, the host is the first of them; and if none remains, the room is
  ended and \<^verbatim>\<open>endedAt\<close> is set.
\<close>

theorem leave_room_effect:
  assumes "find (has_id rid) (videoRooms st) = Some r"
      and "list_ex (\<lambda>p. uid st p = uid st cu) (room_participants r)"
  shows "\<exists>r' i. fst (leave_room e cu rid st) = Success NoPayload (Some SalleQuittee)
      \<and> find (has_id rid) (videoRooms (snd (leave_room e cu rid st))) = Some r'
      \<and> findIndex (\<lambda>p. uid st p = uid st cu) (room_participants r) = Some i
      \<and> room_participants r' = splice1 i (room_participants r)
      \<and> length (room_participants r') + 1 = length (room_participants r)
      \<and> (distinct (map (uid st) (room_participants r))
           \<longrightarrow> uid st cu \<notin> uid st ` set (room_participants r'))
      \<and> (uid st (room_host r) = uid st cu \<and> room_participants r' \<noteq> []
           \<longrightarrow> room_host r' = hd (room_participants r'))
      \<and> (room_participants r' = []
           \<longrightarrow> room_status r' = Ended \<and> room_endedAt r' = Some (now e))"
proof -
  let ?P = "\<lambda>p. uid st p = uid st cu"
  from assms(2) obtain i where i: "findIndex ?P (room_participants r) = Some i"
    by (cases "findIndex ?P (room_participants r)") (auto simp: findIndex_None)
  from findIndex_Some[OF i] have ilen: "i < length (room_participants r)"
    and ip: "uid st (room_participants r ! i) = uid st cu" by auto
  define r1 where "r1 = r\<lparr>room_participants := splice1 i (room_participants r),
                           room_updatedAt := now e\<rparr>"
  define r2 where "r2 = (if uid st (room_host r1) = uid st cu
                          then (case room_participants r1 of
                                  newHost # _ \<Rightarrow> r1\<lparr>room_host := newHost\<rparr>
                                | [] \<Rightarrow> r1\<lparr>room_status := Ended, room_endedAt := Some (now e)\<rparr>)
                          else r1)"
  define r3 where "r3 = (if length (room_participants r2) = 0
                          then r2\<lparr>room_status := Ended, room_endedAt := Some (now e)\<rparr>
                          else r2)"
  have res: "leave_room e cu rid st = (Success NoPayload (Some SalleQuittee),
      st\<lparr>videoRooms := modify_first (has_id rid) (\<lambda>_. r3) (videoRooms st)\<rparr>)"
    unfolding leave_room_def r3_def r2_def r1_def using assms(1) i by (simp add: Let_def)
  have p2: "room_participants r2 = splice1 i (room_participants r)"
    unfolding r2_def r1_def by (simp split: list.splits)
  have p3: "room_participants r3 = splice1 i (room_participants r)"
    unfolding r3_def using p2 by simp
  have id3: "has_id rid r3"
    using find_Some_set[OF assms(1)] unfolding r3_def r2_def r1_def has_id_def
    by (simp split: list.splits)
  have f: "find (has_id rid) (videoRooms (snd (leave_room e cu rid st))) = Some r3"
    using find_modify_first[OF assms(1) id3] res by simp
  have host: "uid st (room_host r) = uid st cu \<and> room_participants r3 \<noteq> []
      \<longrightarrow> room_host r3 = hd (room_participants r3)"
    unfolding r3_def r2_def r1_def by (auto split: list.splits)
  have ended: "room_participants r3 = [] \<longrightarrow> room_status r3 = Ended \<and> room_endedAt r3 = Some (now e)"
    using p2 unfolding r3_def by auto
  have gone: "distinct (map (uid st) (room_participants r))
           \<longrightarrow> uid st cu \<notin> uid st ` set (room_participants r3)"
    using removed_not_in_splice1[of "uid st" "room_participants r" i] ilen ip p3 by auto
  show ?thesis
    using res f i p3 length_splice1[OF ilen] gone host ended by (intro exI[of _ r3] exI[of _ i]) simp
qed


theorem leave_room_effect_witness:
  "find (has_id ''r1'') (videoRooms store_ab) = Some room_ab
   \<and> list_ex (\<lambda>p. uid store_ab p = uid store_ab 0) (room_participants room_ab)
   \<and> (\<exists>r'. find (has_id ''r1'') (videoRooms (snd (leave_room env0 0 ''r1'' store_ab))) = Some r'
          \<and> room_participants r' = [1] \<and> room_host r' = 1
          \<and> uid store_ab 0 \<notin> uid store_ab ` set (room_participants r'))"
proof -
  have h1: "find (has_id ''r1'') (videoRooms store_ab) = Some room_ab"
    by (simp add: store_ab_def room_ab_def has_id_def)
  have h2: "list_ex (\<lambda>p. uid store_ab p = uid store_ab 0) (room_participants room_ab)"
    by (simp add: room_ab_def)
  have ids: "uid store_ab 0 = ''u1''" "uid store_ab (Suc 0) = ''u2''"
    by (simp_all add: uid_def store_ab_def alice_def bob_def)
  from leave_room_effect[OF h1 h2, of env0] obtain r' i where
    f: "find (has_id ''r1'') (videoRooms (snd (leave_room env0 0 ''r1'' store_ab))) = Some r'"
    and i: "findIndex (\<lambda>p. uid store_ab p = uid store_ab 0) (room_participants room_ab) = Some i"
    and ps: "room_participants r' = splice1 i (room_participants room_ab)"
    and gone: "distinct (map (uid store_ab) (room_participants room_ab))
           \<longrightarrow> uid store_ab 0 \<notin> uid store_ab ` set (room_participants r')"
    and host: "uid store_ab (room_host room_ab) = uid store_ab 0 \<and> room_participants r' \<noteq> []
           \<longrightarrow> room_host r' = hd (room_participants r')"
    by blast
  from i have i0: "i = 0" by (simp add: room_ab_def)
  from ps i0 have ps1: "room_participants r' = [1]" by (simp add: room_ab_def splice1_def)
  from host ps1 have "room_host r' = 1" by (simp add: room_ab_def)
  moreover from gone have "uid store_ab 0 \<notin> uid store_ab ` set (room_participants r')"
    by (simp add: room_ab_def ids)
  ultimately show ?thesis using h1 h2 f ps1 by blast
qed

section \<open>Joining a full room\<close>

text \<open>
  C4. A room that the id finds, that is not ended and whose participants are at least
  \<^verbatim>\<open>maxParticipants\<close>: a join by a user who is not among the participants returns the
  error "La salle est pleine", and the store, the room's participants with it, is unchanged.
\<close>

theorem join_full_room_rejected:
  assumes "find (has_id rid) (videoRooms st) = Some r"
      and "room_status r \<noteq> Ended"
      and "real (length (room_participants r)) \<ge> room_maxParticipants r"
      and "\<not> list_ex (\<lambda>p. uid st p = uid st cu) (room_participants r)"
  shows "join_room e cu rid pw st = (ErrorResponse SallePleine, st)"
  using assms unfolding join_room_def by simp

theorem join_full_room_rejected_witness:
  "find (has_id ''r1'') (videoRooms store_abc) = Some room_ab
   \<and> room_status room_ab \<noteq> Ended
   \<and> real (length (room_participants room_ab)) \<ge> room_maxParticipants room_ab
   \<and> \<not> list_ex (\<lambda>p. uid store_abc p = uid store_abc 2) (room_participants room_ab)
   \<and> join_room env0 2 ''r1'' None store_abc = (ErrorResponse SallePleine, store_abc)"
proof -
  have h1: "find (has_id ''r1'') (videoRooms store_abc) = Some room_ab"
    by (simp add: store_abc_def store_ab_def room_ab_def has_id_def)
  have h2: "room_status room_ab \<noteq> Ended" by (simp add: room_ab_def)
  have h3: "real (length (room_participants room_ab)) \<ge> room_maxParticipants room_ab"
    by (simp add: room_ab_def)
  have h4: "\<not> list_ex (\<lambda>p. uid store_abc p = uid store_abc 2) (room_participants room_ab)"
    by (simp add: room_ab_def uid_def store_abc_def store_ab_def alice_def bob_def carol_def)
  from join_full_room_rejected[OF h1 h2 h3 h4] h1 h2 h3 h4 show ?thesis by blast
qed

section \<open>The invariants hold in every reachable store\<close>

lemma list_all_modify_first:
  "list_all Q xs \<Longrightarrow> Q y \<Longrightarrow> list_all Q (modify_first P (\<lambda>_. y) xs)"
  by (induction xs) auto

lemma list_all_splice1: "list_all Q xs \<Longrightarrow> list_all Q (splice1 i xs)"
  using set_splice1[of i xs] by (auto simp: list_all_iff)

lemma find_Some_list_all: "find P xs = Some x \<Longrightarrow> list_all Q xs \<Longrightarrow> Q x"
  by (auto dest: find_Some_set simp: list_all_iff)

lemma uid_same_users: "users st' = users st \<Longrightarrow> uid st' = uid st"
  by (simp add: uid_def fun_eq_iff)

lemma uid_update [simp]:
  "uid (st\<lparr>videoRooms := rs\<rparr>) = uid st"
  "uid (st\<lparr>posts := ps\<rparr>) = uid st"
  "uid (st\<lparr>products := qs\<rparr>) = uid st"
  by (simp_all add: uid_def fun_eq_iff)

lemma room_invariants_frame:
  assumes "users st' = users st" "videoRooms st' = videoRooms st"
  shows "refs_ok st' = refs_ok st" "participants_distinct st' = participants_distinct st"
  using assms uid_same_users[OF assms(1)] by (simp_all add: refs_ok_def participants_distinct_def)

lemma likes_frame: "posts st' = posts st \<Longrightarrow> likes_distinct st' = likes_distinct st"
  by (simp add: likes_distinct_def)

lemma derive_auth_range: "derive_auth e bearer st = Inr cu \<Longrightarrow> cu < length (users st)"
  unfolding derive_auth_def
  by (auto split: option.splits if_splits verify_result.splits dest: findIndex_Some)

text \<open>A room replaced by one whose participants are in range and have distinct ids.\<close>

lemma room_invariants_modify:
  assumes "refs_ok st" "participants_distinct st"
      and "list_all (\<lambda>p. p < length (users st)) (room_participants r')"
      and "distinct (map (uid st) (room_participants r'))"
      and "st' = st\<lparr>videoRooms := modify_first P (\<lambda>_. r') (videoRooms st)\<rparr>"
  shows "refs_ok st' \<and> participants_distinct st'"
proof -
  have u: "uid st' = uid st" using assms(5) by (simp add: uid_def fun_eq_iff)
  show ?thesis
    using assms(1-4) unfolding refs_ok_def participants_distinct_def u
    by (simp add: assms(5) list_all_modify_first)
qed

lemma create_room_invariants:
  assumes "refs_ok st" "participants_distinct st" "cu < length (users st)"
  shows "refs_ok (snd (create_room e cu b st)) \<and> participants_distinct (snd (create_room e cu b st))"
  using assms unfolding create_room_def refs_ok_def participants_distinct_def
  by (simp add: Let_def)

lemma join_room_invariants:
  assumes "refs_ok st" "participants_distinct st" "cu < length (users st)"
  shows "refs_ok (snd (join_room e cu rid pw st)) \<and> participants_distinct (snd (join_room e cu rid pw st))"
proof (cases "find (has_id rid) (videoRooms st)")
  case None
  then show ?thesis using assms by (simp add: join_room_def)
next
  case (Some r)
  have r1: "list_all (\<lambda>p. p < length (users st)) (room_participants r)"
    using find_Some_list_all[OF Some assms(1)[unfolded refs_ok_def]] .
  have r2: "distinct (map (uid st) (room_participants r))"
    using find_Some_list_all[OF Some assms(2)[unfolded participants_distinct_def]] .
  show ?thesis
  proof (cases "snd (join_room e cu rid pw st) = st")
    case True
    then show ?thesis using assms by simp
  next
    case False
    then have notin: "\<not> list_ex (\<lambda>p. uid st p = uid st cu) (room_participants r)"
      using Some unfolding join_room_def by (auto split: if_splits)
    define r' where "r' = (if length (room_participants r @ [cu]) = 2 \<and> room_status r = Waiting
       then r\<lparr>room_participants := room_participants r @ [cu], room_updatedAt := now e,
               room_status := Active\<rparr>
       else r\<lparr>room_participants := room_participants r @ [cu], room_updatedAt := now e\<rparr>)"
    have st': "snd (join_room e cu rid pw st)
        = st\<lparr>videoRooms := modify_first (has_id rid) (\<lambda>_. r') (videoRooms st)\<rparr>"
      using False Some unfolding join_room_def r'_def by (auto simp: Let_def split: if_splits)
    have ps: "room_participants r' = room_participants r @ [cu]"
      unfolding r'_def by simp
    have a: "list_all (\<lambda>p. p < length (users st)) (room_participants r')"
      using r1 assms(3) ps by simp
    have b: "distinct (map (uid st) (room_participants r'))"
      using r2 notin ps by (auto simp: list_ex_iff)
    show ?thesis using room_invariants_modify[OF assms(1,2) a b st'] .
  qed
qed

lemma leave_room_state:
  assumes "find (has_id rid) (videoRooms st) = Some r"
      and "findIndex (\<lambda>p. uid st p = uid st cu) (room_participants r) = Some i"
  shows "\<exists>r'. snd (leave_room e cu rid st)
            = st\<lparr>videoRooms := modify_first (has_id rid) (\<lambda>_. r') (videoRooms st)\<rparr>
          \<and> room_participants r' = splice1 i (room_participants r)"
proof -
  define r1 where "r1 = r\<lparr>room_participants := splice1 i (room_participants r),
                           room_updatedAt := now e\<rparr>"
  define r2 where "r2 = (if uid st (room_host r1) = uid st cu
                          then (case room_participants r1 of
                                  newHost # _ \<Rightarrow> r1\<lparr>room_host := newHost\<rparr>
                                | [] \<Rightarrow> r1\<lparr>room_status := Ended, room_endedAt := Some (now e)\<rparr>)
                          else r1)"
  define r3 where "r3 = (if length (room_participants r2) = 0
                          then r2\<lparr>room_status := Ended, room_endedAt := Some (now e)\<rparr>
                          else r2)"
  have res: "snd (leave_room e cu rid st)
      = st\<lparr>videoRooms := modify_first (has_id rid) (\<lambda>_. r3) (videoRooms st)\<rparr>"
    unfolding leave_room_def r3_def r2_def r1_def using assms by (simp add: Let_def)
  have p2: "room_participants r2 = splice1 i (room_participants r)"
    unfolding r2_def r1_def by (simp split: list.splits)
  have p3: "room_participants r3 = splice1 i (room_participants r)"
    unfolding r3_def using p2 by simp
  from res p3 show ?thesis by blast
qed

lemma leave_room_invariants:
  assumes "refs_ok st" "participants_distinct st"
  shows "refs_ok (snd (leave_room e cu rid st)) \<and> participants_distinct (snd (leave_room e cu rid st))"
proof (cases "find (has_id rid) (videoRooms st)")
  case None
  then show ?thesis using assms by (simp add: leave_room_def)
next
  case (Some r)
  note found = this
  have r1: "list_all (\<lambda>p. p < length (users st)) (room_participants r)"
    using find_Some_list_all[OF Some assms(1)[unfolded refs_ok_def]] .
  have r2: "distinct (map (uid st) (room_participants r))"
    using find_Some_list_all[OF Some assms(2)[unfolded participants_distinct_def]] .
  show ?thesis
  proof (cases "findIndex (\<lambda>p. uid st p = uid st cu) (room_participants r)")
    case None
    then show ?thesis using assms found by (simp add: leave_room_def)
  next
    case (Some i)
    from leave_room_state[OF found Some, of e] obtain r' where
      st': "snd (leave_room e cu rid st)
            = st\<lparr>videoRooms := modify_first (has_id rid) (\<lambda>_. r') (videoRooms st)\<rparr>"
      and ps: "room_participants r' = splice1 i (room_participants r)" by blast
    have a: "list_all (\<lambda>p. p < length (users st)) (room_participants r')"
      using r1 ps by (simp add: list_all_splice1)
    have b: "distinct (map (uid st) (room_participants r'))"
      using r2 ps by (simp add: distinct_map_splice1)
    show ?thesis using room_invariants_modify[OF assms(1,2) a b st'] .
  qed
qed

lemma end_room_invariants:
  assumes "refs_ok st" "participants_distinct st"
  shows "refs_ok (snd (end_room e cu rid st)) \<and> participants_distinct (snd (end_room e cu rid st))"
proof (cases "find (has_id rid) (videoRooms st)")
  case None
  then show ?thesis using assms by (simp add: end_room_def)
next
  case (Some r)
  have r1: "list_all (\<lambda>p. p < length (users st)) (room_participants r)"
    using find_Some_list_all[OF Some assms(1)[unfolded refs_ok_def]] .
  have r2: "distinct (map (uid st) (room_participants r))"
    using find_Some_list_all[OF Some assms(2)[unfolded participants_distinct_def]] .
  show ?thesis
  proof (cases "snd (end_room e cu rid st) = st")
    case True
    then show ?thesis using assms by simp
  next
    case False
    define r' where "r' = r\<lparr>room_status := Ended, room_endedAt := Some (now e),
                        room_updatedAt := now e\<rparr>"
    have st': "snd (end_room e cu rid st)
        = st\<lparr>videoRooms := modify_first (has_id rid) (\<lambda>_. r') (videoRooms st)\<rparr>"
      using False Some unfolding end_room_def r'_def by (auto simp: Let_def split: if_splits)
    have a: "list_all (\<lambda>p. p < length (users st)) (room_participants r')"
      using r1 unfolding r'_def by simp
    have b: "distinct (map (uid st) (room_participants r'))"
      using r2 unfolding r'_def by simp
    show ?thesis using room_invariants_modify[OF assms(1,2) a b st'] .
  qed
qed

lemma update_room_invariants:
  assumes "refs_ok st" "participants_distinct st"
  shows "refs_ok (snd (update_room e cu rid b st)) \<and> participants_distinct (snd (update_room e cu rid b st))"
proof (cases "find (has_id rid) (videoRooms st)")
  case None
  then show ?thesis using assms by (simp add: update_room_def)
next
  case (Some r)
  have r1: "list_all (\<lambda>p. p < length (users st)) (room_participants r)"
    using find_Some_list_all[OF Some assms(1)[unfolded refs_ok_def]] .
  have r2: "distinct (map (uid st) (room_participants r))"
    using find_Some_list_all[OF Some assms(2)[unfolded participants_distinct_def]] .
  show ?thesis
  proof (cases "snd (update_room e cu rid b st) = st")
    case True
    then show ?thesis using assms by simp
  next
    case False
    have st': "snd (update_room e cu rid b st)
        = st\<lparr>videoRooms := modify_first (has_id rid) (\<lambda>_. merge_room e b r) (videoRooms st)\<rparr>"
      using False Some unfolding update_room_def by (auto simp: Let_def split: if_splits)
    have a: "list_all (\<lambda>p. p < length (users st)) (room_participants (merge_room e b r))"
      using r1 unfolding merge_room_def by simp
    have b: "distinct (map (uid st) (room_participants (merge_room e b r)))"
      using r2 unfolding merge_room_def by simp
    show ?thesis using room_invariants_modify[OF assms(1,2) a b st'] .
  qed
qed


lemma register_invariants:
  assumes "refs_ok st" "participants_distinct st"
  shows "refs_ok (snd (register e b st)) \<and> participants_distinct (snd (register e b st))"
proof (cases "snd (register e b st) = st")
  case True
  then show ?thesis using assms by simp
next
  case False
  then obtain u c where st': "snd (register e b st) = st\<lparr>users := users st @ [u], userCredentials := c\<rparr>"
    unfolding register_def by (auto simp: Let_def split: if_splits)
  let ?st' = "st\<lparr>users := users st @ [u], userCredentials := c\<rparr>"
  have same: "uid ?st' p = uid st p" if "p < length (users st)" for p
    using that by (simp add: uid_def nth_append)
  have maps: "map (uid ?st') ps = map (uid st) ps"
    if "list_all (\<lambda>p. p < length (users st)) ps" for ps
    using that same by (simp add: list_all_iff)
  have "list_all (\<lambda>p. p < length (users ?st')) (room_participants r)
      \<and> distinct (map (uid ?st') (room_participants r))"
    if r: "r \<in> set (videoRooms st)" for r
  proof -
    from r assms(1) have a: "list_all (\<lambda>p. p < length (users st)) (room_participants r)"
      by (simp add: refs_ok_def list_all_iff)
    from r assms(2) have b: "distinct (map (uid st) (room_participants r))"
      by (simp add: participants_distinct_def list_all_iff)
    from a have a': "list_all (\<lambda>p. p < length (users ?st')) (room_participants r)"
      by (auto simp: list_all_iff)
    from b have "distinct (map (uid ?st') (room_participants r))"
      by (simp only: maps[OF a])
    with a' show ?thesis by (rule conjI)
  qed
  then show ?thesis
    unfolding st' refs_ok_def participants_distinct_def
    by (simp add: list_all_iff)
qed

lemma uid_update_profile: "uid (snd (update_profile e cu b st)) = uid st"
proof
  fix r
  show "uid (snd (update_profile e cu b st)) r = uid st r"
  proof (cases "cu < length (users st)")
    case True
    then show ?thesis
      by (simp add: uid_def update_profile_def nth_list_update merge_user_def)
  next
    case False
    then have "(users st)[cu := merge_user e b (users st ! cu)] = users st"
      by (simp add: list_update_beyond)
    then show ?thesis by (simp add: uid_def update_profile_def)
  qed
qed

lemma update_profile_invariants:
  assumes "refs_ok st" "participants_distinct st"
  shows "refs_ok (snd (update_profile e cu b st))
       \<and> participants_distinct (snd (update_profile e cu b st))"
proof -
  have "videoRooms (snd (update_profile e cu b st)) = videoRooms st"
       "length (users (snd (update_profile e cu b st))) = length (users st)"
    by (simp_all add: update_profile_def)
  then show ?thesis
    using assms uid_update_profile[of e cu b st]
    unfolding refs_ok_def participants_distinct_def by simp
qed

lemma distinct_splice1: "distinct xs \<Longrightarrow> distinct (splice1 i xs)"
  using distinct_map_splice1[of "\<lambda>x. x" xs i] by simp

lemma like_post_likes:
  assumes "likes_distinct st"
  shows "likes_distinct (snd (like_post cu pid st))"
proof (cases "find (is_post pid) (posts st)")
  case None
  then show ?thesis using assms by (simp add: like_post_def)
next
  case (Some p)
  have d: "distinct (post_likes p)"
    using find_Some_list_all[OF Some assms[unfolded likes_distinct_def]] .
  show ?thesis
  proof (cases "findIndex (\<lambda>l. l = uid st cu) (post_likes p)")
    case None
    then have "uid st cu \<notin> set (post_likes p)"
      by (simp add: findIndex_None list_ex_iff)
    with d have "distinct (post_likes (p\<lparr>post_likes := post_likes p @ [uid st cu]\<rparr>))" by simp
    then show ?thesis
      using assms Some None unfolding like_post_def likes_distinct_def
      by (simp add: Let_def list_all_modify_first)
  next
    case (Some i)
    have "distinct (post_likes (p\<lparr>post_likes := splice1 i (post_likes p)\<rparr>))"
      using d by (simp add: distinct_splice1)
    then show ?thesis
      using assms \<open>find (is_post pid) (posts st) = Some p\<close> Some
      unfolding like_post_def likes_distinct_def
      by (simp add: Let_def list_all_modify_first)
  qed
qed

lemma create_post_likes: "likes_distinct st \<Longrightarrow> likes_distinct (snd (create_post e cu b st))"
  by (simp add: create_post_def likes_distinct_def Let_def)

lemma update_post_likes:
  assumes "likes_distinct st"
  shows "likes_distinct (snd (update_post e cu pid b st))"
proof (cases "find (is_post pid) (posts st)")
  case None
  then show ?thesis using assms by (simp add: update_post_def)
next
  case (Some p)
  have d: "distinct (post_likes p)"
    using find_Some_list_all[OF Some assms[unfolded likes_distinct_def]] .
  then show ?thesis
    using assms Some unfolding update_post_def likes_distinct_def
    by (simp add: Let_def list_all_modify_first)
qed

lemma add_comment_likes:
  assumes "likes_distinct st"
  shows "likes_distinct (snd (add_comment e cu pid c st))"
proof (cases "find (is_post pid) (posts st)")
  case None
  then show ?thesis using assms by (simp add: add_comment_def)
next
  case (Some p)
  have d: "distinct (post_likes p)"
    using find_Some_list_all[OF Some assms[unfolded likes_distinct_def]] .
  then show ?thesis
    using assms Some unfolding add_comment_def likes_distinct_def
    by (simp add: Let_def list_all_modify_first)
qed

lemma delete_post_likes:
  "likes_distinct st \<Longrightarrow> likes_distinct (snd (delete_post cu pid st))"
  unfolding delete_post_def likes_distinct_def
  by (auto simp: list_all_splice1 split: option.splits)

text \<open>Which stores a handler can write.\<close>

lemma posts_handlers_frame:
  "users (snd (create_post e cu b st)) = users st \<and> videoRooms (snd (create_post e cu b st)) = videoRooms st"
  "users (snd (update_post e cu pid b st)) = users st \<and> videoRooms (snd (update_post e cu pid b st)) = videoRooms st"
  "users (snd (delete_post cu pid st)) = users st \<and> videoRooms (snd (delete_post cu pid st)) = videoRooms st"
  "users (snd (like_post cu pid st)) = users st \<and> videoRooms (snd (like_post cu pid st)) = videoRooms st"
  "users (snd (add_comment e cu pid c st)) = users st \<and> videoRooms (snd (add_comment e cu pid c st)) = videoRooms st"
  unfolding create_post_def update_post_def delete_post_def like_post_def add_comment_def
  by (simp_all add: Let_def split: option.splits)

lemma products_handlers_frame:
  "users (snd (create_product e cuo b st)) = users st \<and> videoRooms (snd (create_product e cuo b st)) = videoRooms st \<and> posts (snd (create_product e cuo b st)) = posts st"
  "users (snd (update_product e cuo pid ub st)) = users st \<and> videoRooms (snd (update_product e cuo pid ub st)) = videoRooms st \<and> posts (snd (update_product e cuo pid ub st)) = posts st"
  "users (snd (delete_product cuo pid st)) = users st \<and> videoRooms (snd (delete_product cuo pid st)) = videoRooms st \<and> posts (snd (delete_product cuo pid st)) = posts st"
  "users (snd (mark_sold e cuo pid st)) = users st \<and> videoRooms (snd (mark_sold e cuo pid st)) = videoRooms st \<and> posts (snd (mark_sold e cuo pid st)) = posts st"
  unfolding create_product_def update_product_def delete_product_def mark_sold_def
  by (simp_all add: Let_def split: option.splits)

lemma rooms_handlers_frame:
  "posts (snd (create_room e cu b st)) = posts st"
  "posts (snd (join_room e cu rid pw st)) = posts st"
  "posts (snd (leave_room e cu rid st)) = posts st"
  "posts (snd (end_room e cu rid st)) = posts st"
  "posts (snd (update_room e cu rid ub st)) = posts st"
  "posts (snd (register e rb st)) = posts st"
  "posts (snd (update_profile e cu pb st)) = posts st"
  unfolding create_room_def join_room_def leave_room_def end_room_def update_room_def
    register_def update_profile_def
  by (simp_all add: Let_def split: option.splits)


lemma store_ok_rooms:
  assumes "store_ok st" "refs_ok st' \<and> participants_distinct st'" "posts st' = posts st"
  shows "store_ok st'"
  using assms likes_frame[OF assms(3)] by (simp add: store_ok_def)

lemma store_ok_posts:
  assumes "store_ok st" "users st' = users st \<and> videoRooms st' = videoRooms st" "likes_distinct st'"
  shows "store_ok st'"
  using assms room_invariants_frame[of st' st] by (simp add: store_ok_def)

lemma store_ok_handlers:
  assumes "store_ok st"
  shows "store_ok (snd (register e rb st))"
    and "store_ok (snd (update_profile e cu pb st))"
    and "store_ok (snd (create_post e cu cb st))"
    and "store_ok (snd (update_post e cu pid cb st))"
    and "store_ok (snd (delete_post cu pid st))"
    and "store_ok (snd (like_post cu pid st))"
    and "store_ok (snd (add_comment e cu pid c st))"
    and "store_ok (snd (create_product e cuo qb st))"
    and "store_ok (snd (update_product e cuo pid ub st))"
    and "store_ok (snd (delete_product cuo pid st))"
    and "store_ok (snd (mark_sold e cuo pid st))"
    and "cu < length (users st) \<Longrightarrow> store_ok (snd (create_room e cu crb st))"
    and "cu < length (users st) \<Longrightarrow> store_ok (snd (join_room e cu rid pw st))"
    and "store_ok (snd (leave_room e cu rid st))"
    and "store_ok (snd (end_room e cu rid st))"
    and "store_ok (snd (update_room e cu rid urb st))"
proof -
  from assms have r: "refs_ok st" and p: "participants_distinct st" and l: "likes_distinct st"
    by (simp_all add: store_ok_def)
  show "store_ok (snd (register e rb st))"
    by (rule store_ok_rooms[OF assms register_invariants[OF r p] rooms_handlers_frame(6)])
  show "store_ok (snd (update_profile e cu pb st))"
    by (rule store_ok_rooms[OF assms update_profile_invariants[OF r p] rooms_handlers_frame(7)])
  show "store_ok (snd (create_post e cu cb st))"
    by (rule store_ok_posts[OF assms posts_handlers_frame(1) create_post_likes[OF l]])
  show "store_ok (snd (update_post e cu pid cb st))"
    by (rule store_ok_posts[OF assms posts_handlers_frame(2) update_post_likes[OF l]])
  show "store_ok (snd (delete_post cu pid st))"
    by (rule store_ok_posts[OF assms posts_handlers_frame(3) delete_post_likes[OF l]])
  show "store_ok (snd (like_post cu pid st))"
    by (rule store_ok_posts[OF assms posts_handlers_frame(4) like_post_likes[OF l]])
  show "store_ok (snd (add_comment e cu pid c st))"
    by (rule store_ok_posts[OF assms posts_handlers_frame(5) add_comment_likes[OF l]])
  show "store_ok (snd (create_product e cuo qb st))"
    using products_handlers_frame(1)[of e cuo qb st] l
    by (intro store_ok_posts[OF assms]) (simp_all add: likes_distinct_def)
  show "store_ok (snd (update_product e cuo pid ub st))"
    using products_handlers_frame(2)[of e cuo pid ub st] l
    by (intro store_ok_posts[OF assms]) (simp_all add: likes_distinct_def)
  show "store_ok (snd (delete_product cuo pid st))"
    using products_handlers_frame(3)[of cuo pid st] l
    by (intro store_ok_posts[OF assms]) (simp_all add: likes_distinct_def)
  show "store_ok (snd (mark_sold e cuo pid st))"
    using products_handlers_frame(4)[of e cuo pid st] l
    by (intro store_ok_posts[OF assms]) (simp_all add: likes_distinct_def)
  show "cu < length (users st) \<Longrightarrow> store_ok (snd (create_room e cu crb st))"
    by (rule store_ok_rooms[OF assms create_room_invariants[OF r p] rooms_handlers_frame(1)])
  show "cu < length (users st) \<Longrightarrow> store_ok (snd (join_room e cu rid pw st))"
    by (rule store_ok_rooms[OF assms join_room_invariants[OF r p] rooms_handlers_frame(2)])
  show "store_ok (snd (leave_room e cu rid st))"
    by (rule store_ok_rooms[OF assms leave_room_invariants[OF r p] rooms_handlers_frame(3)])
  show "store_ok (snd (end_room e cu rid st))"
    by (rule store_ok_rooms[OF assms end_room_invariants[OF r p] rooms_handlers_frame(4)])
  show "store_ok (snd (update_room e cu rid urb st))"
    by (rule store_ok_rooms[OF assms update_room_invariants[OF r p] rooms_handlers_frame(5)])
qed

lemma with_auth_store_ok:
  assumes "store_ok st" "\<And>cu. cu < length (users st) \<Longrightarrow> store_ok (snd (h cu))"
  shows "store_ok (snd (with_auth e bearer st h))"
proof (cases "derive_auth e bearer st")
  case (Inl x)
  then show ?thesis using assms(1) by (simp add: with_auth_def)
next
  case (Inr cu)
  then show ?thesis
    using assms(2)[OF derive_auth_range[OF Inr]] by (simp add: with_auth_def respond_def)
qed

lemma handle_store_ok:
  assumes "store_ok st"
  shows "store_ok (snd (handle e bearer req st))"
proof (cases req)
  case (Register b)
  then show ?thesis by (simp add: respond_def store_ok_handlers[OF assms])
next
  case (UpdateProfile b)
  then show ?thesis by (simp add: with_auth_store_ok assms store_ok_handlers[OF assms])
next
  case (CreatePost b)
  then show ?thesis by (simp add: with_auth_store_ok assms store_ok_handlers[OF assms])
next
  case (UpdatePost i b)
  then show ?thesis by (simp add: with_auth_store_ok assms store_ok_handlers[OF assms])
next
  case (DeletePost i)
  then show ?thesis by (simp add: with_auth_store_ok assms store_ok_handlers[OF assms])
next
  case (LikePost i)
  then show ?thesis by (simp add: with_auth_store_ok assms store_ok_handlers[OF assms])
next
  case (AddComment i c)
  then show ?thesis by (simp add: with_auth_store_ok assms store_ok_handlers[OF assms])
next
  case (CreateProduct b)
  then show ?thesis by (simp add: respond_def store_ok_handlers[OF assms])
next
  case (UpdateProduct i b)
  then show ?thesis by (simp add: respond_def store_ok_handlers[OF assms])
next
  case (DeleteProduct i)
  then show ?thesis by (simp add: respond_def store_ok_handlers[OF assms])
next
  case (MarkSold i)
  then show ?thesis by (simp add: respond_def store_ok_handlers[OF assms])
next
  case (CreateRoom b)
  then show ?thesis by (simp add: with_auth_store_ok assms store_ok_handlers[OF assms])
next
  case (JoinRoom i pw)
  then show ?thesis by (simp add: with_auth_store_ok assms store_ok_handlers[OF assms])
next
  case (LeaveRoom i)
  then show ?thesis by (simp add: with_auth_store_ok assms store_ok_handlers[OF assms])
next
  case (EndRoom i)
  then show ?thesis by (simp add: with_auth_store_ok assms store_ok_handlers[OF assms])
next
  case (UpdateRoom i b)
  then show ?thesis by (simp add: with_auth_store_ok assms store_ok_handlers[OF assms])
qed (simp_all add: respond_def with_auth_store_ok assms)

lemma store_ok_init: "store_ok init_state"
  by (simp add: store_ok_def init_state_def refs_ok_def participants_distinct_def likes_distinct_def)

lemma reachable_store_ok: "reachable st \<Longrightarrow> store_ok st"
  by (induction rule: reachable.induct) (simp_all add: store_ok_init handle_store_ok)


lemma modify_first_twice:
  "find P xs = Some x \<Longrightarrow> P y \<Longrightarrow>
   modify_first P (\<lambda>_. z) (modify_first P (\<lambda>_. y) xs) = modify_first P (\<lambda>_. z) xs"
  by (induction xs) auto

lemma modify_first_same: "find P xs = Some x \<Longrightarrow> modify_first P (\<lambda>_. x) xs = xs"
  by (induction xs) (auto split: if_splits)

lemma findIndex_snoc:
  "\<not> list_ex P xs \<Longrightarrow> P x \<Longrightarrow> findIndex P (xs @ [x]) = Some (length xs)"
  by (induction xs) auto

lemma splice1_snoc: "splice1 (length xs) (xs @ [x]) = xs"
  by (simp add: splice1_def)

section \<open>Participants of a room\<close>

text \<open>
  C9. In every store that a sequence of requests produces from the empty one (creating,
  joining, leaving, ending and updating rooms among them, by any users and in any order),
  no room lists a user id twice among its participants.
\<close>

theorem reachable_participants_distinct:
  "reachable st \<Longrightarrow> participants_distinct st"
  using reachable_store_ok[of st] by (simp add: store_ok_def)

lemma store_values:
  "users store_2 = [alice\<lparr>u_createdAt := 50, u_updatedAt := 50\<rparr>, bob\<lparr>u_createdAt := 50, u_updatedAt := 50\<rparr>]"
  "map room_participants (videoRooms store_3) = [[0]]"
  "map room_participants (videoRooms store_4) = [[0, 1]]"
  by (simp_all add: store_4_def store_3_def store_2_def store_1_def init_state_def respond_def env0_def
      register_def register_alice_def register_bob_def alice_def bob_def Let_def
      with_auth_def derive_auth_def create_room_def open_room_def join_room_def has_id_def uid_def truthy_def)

theorem reachable_participants_distinct_witness:
  "reachable store_4 \<and> participants_distinct store_4
   \<and> map room_participants (videoRooms store_4) = [[0, 1]]"
proof -
  have "reachable store_4"
    unfolding store_4_def store_3_def store_2_def store_1_def
    by (intro reachable_step reachable_init)
  with reachable_participants_distinct[OF this] store_values(3) show ?thesis by simp
qed


section \<open>Liking a post twice\<close>

lemma like_post_absent:
  assumes "find (is_post pid) (posts st) = Some p" "uid st cu \<notin> set (post_likes p)"
  shows "like_post cu pid st =
     (Success (LikePayload True (length (post_likes p) + 1)) (Some PostLike),
      st\<lparr>posts := modify_first (is_post pid)
             (\<lambda>_. p\<lparr>post_likes := post_likes p @ [uid st cu]\<rparr>) (posts st)\<rparr>)"
proof -
  have "findIndex (\<lambda>l. l = uid st cu) (post_likes p) = None"
    using assms(2) by (simp add: findIndex_None list_ex_iff)
  then show ?thesis using assms(1) by (simp add: like_post_def Let_def)
qed

lemma like_post_present:
  assumes "find (is_post pid) (posts st) = Some p"
      and "findIndex (\<lambda>l. l = uid st cu) (post_likes p) = Some i"
  shows "like_post cu pid st =
     (Success (LikePayload False (length (splice1 i (post_likes p)))) (Some LikeRetire),
      st\<lparr>posts := modify_first (is_post pid)
             (\<lambda>_. p\<lparr>post_likes := splice1 i (post_likes p)\<rparr>) (posts st)\<rparr>)"
  using assms by (simp add: like_post_def Let_def)

text \<open>
  C5. On a post that the id finds, in a store that requests have produced, two likes in
  succession by the same user: both succeed, the two reports of \<^verbatim>\<open>liked\<close> are opposite,
  the second reports the like count the post had before the first, and the post has that
  many likes afterwards. When the user was not in the likes list, the first call reports
  \<^verbatim>\<open>liked: true\<close> and one like more, the second \<^verbatim>\<open>liked: false\<close>, and the store is
  again what it was.
\<close>

theorem like_twice_restores_count:
  assumes "reachable st" and "find (is_post pid) (posts st) = Some p"
  shows "\<exists>p2 l1 n1 m1 l2 m2.
       fst (like_post cu pid st) = Success (LikePayload l1 n1) m1
     \<and> fst (like_post cu pid (snd (like_post cu pid st)))
         = Success (LikePayload l2 (length (post_likes p))) m2
     \<and> l2 = (\<not> l1)
     \<and> find (is_post pid) (posts (snd (like_post cu pid (snd (like_post cu pid st))))) = Some p2
     \<and> length (post_likes p2) = length (post_likes p)
     \<and> (uid st cu \<notin> set (post_likes p) \<longrightarrow>
          fst (like_post cu pid st)
            = Success (LikePayload True (length (post_likes p) + 1)) (Some PostLike)
          \<and> fst (like_post cu pid (snd (like_post cu pid st)))
            = Success (LikePayload False (length (post_likes p))) (Some LikeRetire)
          \<and> snd (like_post cu pid (snd (like_post cu pid st))) = st)"
proof -
  let ?u = "uid st cu"
  let ?P = "is_post pid"
  have isp: "is_post pid p" using find_Some_set[OF assms(2)] by simp
  have "list_all (\<lambda>p. distinct (post_likes p)) (posts st)"
    using reachable_store_ok[OF assms(1)] by (simp add: store_ok_def likes_distinct_def)
  then have d: "distinct (post_likes p)"
    by (rule find_Some_list_all[OF assms(2)])
  show ?thesis
  proof (cases "findIndex (\<lambda>l. l = ?u) (post_likes p)")
    case None
    then have notin: "?u \<notin> set (post_likes p)"
      by (simp add: findIndex_None list_ex_iff)
    define p1 where "p1 = p\<lparr>post_likes := post_likes p @ [?u]\<rparr>"
    define st1 where "st1 = st\<lparr>posts := modify_first ?P (\<lambda>_. p1) (posts st)\<rparr>"
    have first: "like_post cu pid st
        = (Success (LikePayload True (length (post_likes p) + 1)) (Some PostLike), st1)"
      using like_post_absent[OF assms(2) notin] by (simp add: st1_def p1_def)
    have isp1: "is_post pid p1" using isp by (simp add: p1_def is_post_def)
    have f1: "find ?P (posts st1) = Some p1"
      using find_modify_first[OF assms(2) isp1] by (simp add: st1_def)
    have u1: "uid st1 cu = ?u" by (simp add: st1_def)
    have idx: "findIndex (\<lambda>l. l = uid st1 cu) (post_likes p1) = Some (length (post_likes p))"
      using notin unfolding u1 p1_def by (simp add: findIndex_snoc list_ex_iff)
    have restored: "p1\<lparr>post_likes := splice1 (length (post_likes p)) (post_likes p1)\<rparr> = p"
      by (simp add: p1_def splice1_snoc)
    have posts2: "modify_first ?P (\<lambda>_. p) (posts st1) = posts st"
      using modify_first_twice[OF assms(2) isp1, of p] modify_first_same[OF assms(2)]
      by (simp add: st1_def)
    have second: "like_post cu pid st1
        = (Success (LikePayload False (length (post_likes p))) (Some LikeRetire), st)"
      using like_post_present[OF f1 idx] posts2
      by (simp add: restored) (simp add: p1_def splice1_snoc st1_def)
    show ?thesis
      using first second assms(2)
      by (intro exI[of _ p] exI[of _ True] exI[of _ "length (post_likes p) + 1"]
            exI[of _ "Some PostLike"] exI[of _ False] exI[of _ "Some LikeRetire"]) simp
  next
    case (Some i)
    from findIndex_Some[OF Some] have ilen: "i < length (post_likes p)"
      and iu: "post_likes p ! i = ?u" by auto
    define p1 where "p1 = p\<lparr>post_likes := splice1 i (post_likes p)\<rparr>"
    define st1 where "st1 = st\<lparr>posts := modify_first ?P (\<lambda>_. p1) (posts st)\<rparr>"
    have len1: "length (post_likes p1) + 1 = length (post_likes p)"
      using length_splice1[OF ilen] by (simp add: p1_def)
    have first: "like_post cu pid st
        = (Success (LikePayload False (length (post_likes p1))) (Some LikeRetire), st1)"
      using like_post_present[OF assms(2) Some] by (simp add: st1_def p1_def)
    have isp1: "is_post pid p1" using isp by (simp add: p1_def is_post_def)
    have f1: "find ?P (posts st1) = Some p1"
      using find_modify_first[OF assms(2) isp1] by (simp add: st1_def)
    have u1: "uid st1 cu = ?u" by (simp add: st1_def)
    have gone: "uid st1 cu \<notin> set (post_likes p1)"
      using removed_not_in_splice1[of "\<lambda>x. x" "post_likes p" i] d ilen iu
      unfolding u1 p1_def by simp
    define p2 where "p2 = p1\<lparr>post_likes := post_likes p1 @ [uid st1 cu]\<rparr>"
    have second: "like_post cu pid st1
        = (Success (LikePayload True (length (post_likes p1) + 1)) (Some PostLike),
           st1\<lparr>posts := modify_first ?P (\<lambda>_. p2) (posts st1)\<rparr>)"
      using like_post_absent[OF f1 gone] by (simp add: p2_def)
    have isp2: "is_post pid p2" using isp1 by (simp add: p2_def is_post_def)
    have f2: "find ?P (posts (snd (like_post cu pid st1))) = Some p2"
      using find_modify_first[OF f1 isp2] second by simp
    have len2: "length (post_likes p2) = length (post_likes p)"
      using len1 by (simp add: p2_def)
    have inl: "?u \<in> set (post_likes p)" using ilen iu by (metis nth_mem)
    show ?thesis
      using first second f2 len2 len1 inl
      by (intro exI[of _ p2] exI[of _ False] exI[of _ "length (post_likes p1)"]
            exI[of _ "Some LikeRetire"] exI[of _ True] exI[of _ "Some PostLike"]) simp
  qed
qed


theorem like_twice_restores_count_witness:
  "reachable store_p
   \<and> find (is_post ''n1'') (posts store_p) = Some (hello_post\<lparr>post_createdAt := 50, post_updatedAt := 50\<rparr>)
   \<and> fst (like_post 1 ''n1'' store_p) = Success (LikePayload True 1) (Some PostLike)
   \<and> fst (like_post 1 ''n1'' (snd (like_post 1 ''n1'' store_p)))
       = Success (LikePayload False 0) (Some LikeRetire)
   \<and> snd (like_post 1 ''n1'' (snd (like_post 1 ''n1'' store_p))) = store_p"
proof -
  have r: "reachable store_p"
    unfolding store_p_def store_2_def store_1_def
    by (intro reachable_step reachable_init)
  have "posts store_p = [hello_post\<lparr>post_createdAt := 50, post_updatedAt := 50\<rparr>]"
    by (simp add: store_p_def store_2_def store_1_def init_state_def respond_def env0_def
      register_def register_alice_def register_bob_def Let_def
      with_auth_def derive_auth_def create_post_def say_hello_def hello_post_def)
  then have f: "find (is_post ''n1'') (posts store_p)
      = Some (hello_post\<lparr>post_createdAt := 50, post_updatedAt := 50\<rparr>)"
    by (simp add: is_post_def hello_post_def)
  from like_twice_restores_count[OF r f, of 1] r f show ?thesis
    by (auto simp: hello_post_def)
qed

section \<open>A handler that reports an error has written nothing\<close>

lemma register_atomic:
  "register e rb st = (r, st') \<Longrightarrow> is_error r \<Longrightarrow> st' = st"
  unfolding register_def by (auto simp: Let_def split: option.splits if_splits)

lemma update_profile_atomic:
  "update_profile e cu pb st = (r, st') \<Longrightarrow> is_error r \<Longrightarrow> st' = st"
  unfolding update_profile_def by (auto simp: Let_def split: option.splits if_splits)

lemma create_post_atomic:
  "create_post e cu cb st = (r, st') \<Longrightarrow> is_error r \<Longrightarrow> st' = st"
  unfolding create_post_def by (auto simp: Let_def split: option.splits if_splits)

lemma update_post_atomic:
  "update_post e cu pid cb st = (r, st') \<Longrightarrow> is_error r \<Longrightarrow> st' = st"
  unfolding update_post_def by (auto simp: Let_def split: option.splits if_splits)

lemma delete_post_atomic:
  "delete_post cu pid st = (r, st') \<Longrightarrow> is_error r \<Longrightarrow> st' = st"
  unfolding delete_post_def by (auto simp: Let_def split: option.splits if_splits)

lemma like_post_atomic:
  "like_post cu pid st = (r, st') \<Longrightarrow> is_error r \<Longrightarrow> st' = st"
  unfolding like_post_def by (auto simp: Let_def split: option.splits if_splits)

lemma add_comment_atomic:
  "add_comment e cu pid c st = (r, st') \<Longrightarrow> is_error r \<Longrightarrow> st' = st"
  unfolding add_comment_def by (auto simp: Let_def split: option.splits if_splits)

lemma create_product_atomic:
  "create_product e cuo qb st = (r, st') \<Longrightarrow> is_error r \<Longrightarrow> st' = st"
  unfolding create_product_def by (auto simp: Let_def split: option.splits if_splits)

lemma update_product_atomic:
  "update_product e cuo pid ub st = (r, st') \<Longrightarrow> is_error r \<Longrightarrow> st' = st"
  unfolding update_product_def by (auto simp: Let_def split: option.splits if_splits)

lemma delete_product_atomic:
  "delete_product cuo pid st = (r, st') \<Longrightarrow> is_error r \<Longrightarrow> st' = st"
  unfolding delete_product_def by (auto simp: Let_def split: option.splits if_splits)

lemma mark_sold_atomic:
  "mark_sold e cuo pid st = (r, st') \<Longrightarrow> is_error r \<Longrightarrow> st' = st"
  unfolding mark_sold_def by (auto simp: Let_def split: option.splits if_splits)

lemma create_room_atomic:
  "create_room e cu crb st = (r, st') \<Longrightarrow> is_error r \<Longrightarrow> st' = st"
  unfolding create_room_def by (auto simp: Let_def split: option.splits if_splits)

lemma join_room_atomic:
  "join_room e cu rid pw st = (r, st') \<Longrightarrow> is_error r \<Longrightarrow> st' = st"
  unfolding join_room_def by (auto simp: Let_def split: option.splits if_splits)

lemma leave_room_atomic:
  "leave_room e cu rid st = (r, st') \<Longrightarrow> is_error r \<Longrightarrow> st' = st"
  unfolding leave_room_def by (auto simp: Let_def split: option.splits if_splits)

lemma end_room_atomic:
  "end_room e cu rid st = (r, st') \<Longrightarrow> is_error r \<Longrightarrow> st' = st"
  unfolding end_room_def by (auto simp: Let_def split: option.splits if_splits)

lemma update_room_atomic:
  "update_room e cu rid urb st = (r, st') \<Longrightarrow> is_error r \<Longrightarrow> st' = st"
  unfolding update_room_def by (auto simp: Let_def split: option.splits if_splits)

lemma with_auth_atomic:
  assumes "fst (with_auth e bearer st h) = Inr r" "is_error r"
      and "\<And>cu. is_error (fst (h cu)) \<Longrightarrow> snd (h cu) = st"
  shows "snd (with_auth e bearer st h) = st"
proof (cases "derive_auth e bearer st")
  case (Inl x)
  then show ?thesis by (simp add: with_auth_def)
next
  case (Inr cu)
  with assms(1,2) have "is_error (fst (h cu))" by (simp add: with_auth_def respond_def)
  from assms(3)[OF this] Inr show ?thesis by (simp add: with_auth_def respond_def)
qed

lemma respond_atomic:
  assumes "fst (respond rs) = Inr r" "is_error r" "is_error (fst rs) \<Longrightarrow> snd rs = st"
  shows "snd (respond rs) = st"
  using assms by (simp add: respond_def)

text \<open>
  C10. Whenever a request ends in an object with \<^verbatim>\<open>error: true\<close>, the stores
  (\<^verbatim>\<open>users\<close>, \<^verbatim>\<open>userCredentials\<close>, \<^verbatim>\<open>posts\<close>, \<^verbatim>\<open>products\<close>, \<^verbatim>\<open>videoRooms\<close>) are
  what they were before the request, for every route of the five modules.
\<close>

theorem error_leaves_stores_unchanged:
  assumes "fst (handle e bearer req st) = Inr r" and "is_error r"
  shows "snd (handle e bearer req st) = st"
proof (cases req)
  case (Register b)
  from assms[unfolded Register handle.simps] show ?thesis
    unfolding Register handle.simps
    by (rule respond_atomic) (rule register_atomic[OF prod.collapse[symmetric]])
next
  case (UpdateProfile b)
  from assms[unfolded UpdateProfile handle.simps] show ?thesis
    unfolding UpdateProfile handle.simps
    by (rule with_auth_atomic) (rule update_profile_atomic[OF prod.collapse[symmetric]])
next
  case (CreatePost b)
  from assms[unfolded CreatePost handle.simps] show ?thesis
    unfolding CreatePost handle.simps
    by (rule with_auth_atomic) (rule create_post_atomic[OF prod.collapse[symmetric]])
next
  case (UpdatePost i b)
  from assms[unfolded UpdatePost handle.simps] show ?thesis
    unfolding UpdatePost handle.simps
    by (rule with_auth_atomic) (rule update_post_atomic[OF prod.collapse[symmetric]])
next
  case (DeletePost i)
  from assms[unfolded DeletePost handle.simps] show ?thesis
    unfolding DeletePost handle.simps
    by (rule with_auth_atomic) (rule delete_post_atomic[OF prod.collapse[symmetric]])
next
  case (LikePost i)
  from assms[unfolded LikePost handle.simps] show ?thesis
    unfolding LikePost handle.simps
    by (rule with_auth_atomic) (rule like_post_atomic[OF prod.collapse[symmetric]])
next
  case (AddComment i c)
  from assms[unfolded AddComment handle.simps] show ?thesis
    unfolding AddComment handle.simps
    by (rule with_auth_atomic) (rule add_comment_atomic[OF prod.collapse[symmetric]])
next
  case (CreateProduct b)
  from assms[unfolded CreateProduct handle.simps] show ?thesis
    unfolding CreateProduct handle.simps
    by (rule respond_atomic) (rule create_product_atomic[OF prod.collapse[symmetric]])
next
  case (UpdateProduct i b)
  from assms[unfolded UpdateProduct handle.simps] show ?thesis
    unfolding UpdateProduct handle.simps
    by (rule respond_atomic) (rule update_product_atomic[OF prod.collapse[symmetric]])
next
  case (DeleteProduct i)
  from assms[unfolded DeleteProduct handle.simps] show ?thesis
    unfolding DeleteProduct handle.simps
    by (rule respond_atomic) (rule delete_product_atomic[OF prod.collapse[symmetric]])
next
  case (MarkSold i)
  from assms[unfolded MarkSold handle.simps] show ?thesis
    unfolding MarkSold handle.simps
    by (rule respond_atomic) (rule mark_sold_atomic[OF prod.collapse[symmetric]])
next
  case (CreateRoom b)
  from assms[unfolded CreateRoom handle.simps] show ?thesis
    unfolding CreateRoom handle.simps
    by (rule with_auth_atomic) (rule create_room_atomic[OF prod.collapse[symmetric]])
next
  case (JoinRoom i pw)
  from assms[unfolded JoinRoom handle.simps] show ?thesis
    unfolding JoinRoom handle.simps
    by (rule with_auth_atomic) (rule join_room_atomic[OF prod.collapse[symmetric]])
next
  case (LeaveRoom i)
  from assms[unfolded LeaveRoom handle.simps] show ?thesis
    unfolding LeaveRoom handle.simps
    by (rule with_auth_atomic) (rule leave_room_atomic[OF prod.collapse[symmetric]])
next
  case (EndRoom i)
  from assms[unfolded EndRoom handle.simps] show ?thesis
    unfolding EndRoom handle.simps
    by (rule with_auth_atomic) (rule end_room_atomic[OF prod.collapse[symmetric]])
next
  case (UpdateRoom i b)
  from assms[unfolded UpdateRoom handle.simps] show ?thesis
    unfolding UpdateRoom handle.simps
    by (rule with_auth_atomic) (rule update_room_atomic[OF prod.collapse[symmetric]])
qed (simp_all add: respond_def with_auth_def split: sum.splits)

theorem error_leaves_stores_unchanged_witness:
  "fst (handle env0 (Some ''t2'') (DeletePost ''n1'') store_p) = Inr (ErrorResponse PostSupprimerPropres)
   \<and> is_error (ErrorResponse PostSupprimerPropres)
   \<and> snd (handle env0 (Some ''t2'') (DeletePost ''n1'') store_p) = store_p"
proof -
  have h: "fst (handle env0 (Some ''t2'') (DeletePost ''n1'') store_p)
      = Inr (ErrorResponse PostSupprimerPropres)"
    by (simp add: store_p_def store_2_def store_1_def init_state_def respond_def env0_def
      register_def register_alice_def register_bob_def Let_def
      with_auth_def derive_auth_def create_post_def say_hello_def delete_post_def is_post_def
      uid_def)
  have i: "is_error (ErrorResponse PostSupprimerPropres)" by simp
  from error_leaves_stores_unchanged[OF h i] h i show ?thesis by simp
qed

section \<open>Authentication failures\<close>

lemma derive_auth_missing: "\<not> truthy bearer \<Longrightarrow> derive_auth e bearer st = Inl (Error TokenManquant)"
  by (auto simp: derive_auth_def truthy_def split: option.splits)

lemma derive_auth_invalid:
  "bearer = Some b \<Longrightarrow> b \<noteq> [] \<Longrightarrow> jwt_verify e b = VerifyFalse
   \<Longrightarrow> derive_auth e bearer st = Inl (Error TokenInvalide)"
  by (simp add: derive_auth_def)

lemma derive_optional_missing: "\<not> truthy bearer \<Longrightarrow> derive_optional e bearer st = None"
  by (auto simp: derive_optional_def truthy_def split: option.splits)

lemma derive_optional_invalid:
  "bearer = Some b \<Longrightarrow> jwt_verify e b = VerifyFalse \<Longrightarrow> derive_optional e bearer st = None"
  by (simp add: derive_optional_def)

lemma middleware_throws:
  assumes "module_of req = UsersModule \<or> module_of req = PostsModule \<or> module_of req = VideoModule"
      and "derive_auth e bearer st = Inl x"
  shows "handle e bearer req st = (Inl x, st)"
  using assms by (cases req) (simp_all add: with_auth_def)

lemma middleware_passes:
  assumes "module_of req = UsersModule \<or> module_of req = PostsModule \<or> module_of req = VideoModule"
      and "derive_auth e bearer st = Inr cu"
  shows "\<exists>r. fst (handle e bearer req st) = Inr r"
  using assms by (cases req) (simp_all add: with_auth_def respond_def)

lemma without_middleware:
  assumes "module_of req = AuthModule \<or> module_of req = MarketplaceModule"
  shows "\<exists>r. fst (handle e bearer req st) = Inr r"
  using assms by (cases req) (simp_all add: respond_def)

text \<open>
  C2, as amended. Behind the middleware of the users, posts and video modules, a request
  with no bearer token ends in the exception "Token manquant" and one whose token does
  not verify in "Token invalide"; whatever the middleware throws is the outcome, the
  store is untouched, and once the middleware has yielded a user the handler returns a
  tagged object. The routes of the auth and marketplace modules never end in an
  exception: the marketplace middleware sets \<^verbatim>\<open>currentUser\<close> to \<^verbatim>\<open>null\<close> on a missing or
  invalid token, and the marketplace handlers that need a user then return the tagged
  error "Authentification requise".
\<close>

theorem authentication_failures:
  "(module_of req = UsersModule \<or> module_of req = PostsModule \<or> module_of req = VideoModule \<longrightarrow>
      (\<not> truthy bearer \<longrightarrow> handle e bearer req st = (Inl (Error TokenManquant), st))
    \<and> (\<forall>b. bearer = Some b \<and> b \<noteq> [] \<and> jwt_verify e b = VerifyFalse \<longrightarrow>
           handle e bearer req st = (Inl (Error TokenInvalide), st))
    \<and> (\<forall>x. derive_auth e bearer st = Inl x \<longrightarrow> handle e bearer req st = (Inl x, st))
    \<and> (\<forall>cu. derive_auth e bearer st = Inr cu \<longrightarrow> (\<exists>r. fst (handle e bearer req st) = Inr r)))
   \<and> (module_of req = AuthModule \<or> module_of req = MarketplaceModule \<longrightarrow>
        (\<exists>r. fst (handle e bearer req st) = Inr r))
   \<and> ((\<not> truthy bearer \<or> (\<exists>b. bearer = Some b \<and> jwt_verify e b = VerifyFalse)) \<longrightarrow>
        handle e bearer (CreateProduct cb) st = (Inr (ErrorResponse AuthentificationRequise), st)
      \<and> handle e bearer (UpdateProduct pid ub) st = (Inr (ErrorResponse AuthentificationRequise), st)
      \<and> handle e bearer (DeleteProduct pid) st = (Inr (ErrorResponse AuthentificationRequise), st)
      \<and> handle e bearer (MarkSold pid) st = (Inr (ErrorResponse AuthentificationRequise), st))"
proof -
  have a: "handle e bearer req st = (Inl (Error TokenManquant), st)"
    if "module_of req = UsersModule \<or> module_of req = PostsModule \<or> module_of req = VideoModule"
      and "\<not> truthy bearer"
    using middleware_throws[OF that(1) derive_auth_missing[OF that(2)]] .
  have b: "handle e bearer req st = (Inl (Error TokenInvalide), st)"
    if "module_of req = UsersModule \<or> module_of req = PostsModule \<or> module_of req = VideoModule"
      and "bearer = Some b \<and> b \<noteq> [] \<and> jwt_verify e b = VerifyFalse" for b
  proof -
    from that(2) have "derive_auth e bearer st = Inl (Error TokenInvalide)"
      using derive_auth_invalid[of bearer b e st] by blast
    from middleware_throws[OF that(1) this] show ?thesis .
  qed
  have n: "derive_optional e bearer st = None"
    if "\<not> truthy bearer \<or> (\<exists>b. bearer = Some b \<and> jwt_verify e b = VerifyFalse)"
  proof (cases "truthy bearer")
    case False
    then show ?thesis by (rule derive_optional_missing)
  next
    case True
    with that obtain b where "bearer = Some b" "jwt_verify e b = VerifyFalse" by blast
    then show ?thesis by (rule derive_optional_invalid)
  qed
  have c: "handle e bearer (CreateProduct cb) st = (Inr (ErrorResponse AuthentificationRequise), st)
      \<and> handle e bearer (UpdateProduct pid ub) st = (Inr (ErrorResponse AuthentificationRequise), st)
      \<and> handle e bearer (DeleteProduct pid) st = (Inr (ErrorResponse AuthentificationRequise), st)
      \<and> handle e bearer (MarkSold pid) st = (Inr (ErrorResponse AuthentificationRequise), st)"
    if "\<not> truthy bearer \<or> (\<exists>b. bearer = Some b \<and> jwt_verify e b = VerifyFalse)"
    using n[OF that]
    by (simp add: respond_def create_product_def update_product_def delete_product_def
          mark_sold_def)
  show ?thesis
    using a b c middleware_throws[of req e bearer st] middleware_passes[of req e bearer st]
      without_middleware[of req e bearer st]
    by (intro conjI impI allI) blast+
qed

text \<open>
  The claim as stated fails on the marketplace module, whose routes for creating,
  updating and deleting products require authentication: with no token, or with a token
  that does not verify, the request returns a tagged error instead of throwing.
\<close>

theorem marketplace_middleware_does_not_throw:
  "module_of (CreateProduct sell_book) = MarketplaceModule
   \<and> handle env0 None (CreateProduct sell_book) init_state
       = (Inr (ErrorResponse AuthentificationRequise), init_state)
   \<and> handle env0 (Some ''forged'') (CreateProduct sell_book) init_state
       = (Inr (ErrorResponse AuthentificationRequise), init_state)"
  by (simp add: respond_def derive_optional_def create_product_def env0_def)

theorem authentication_failures_witness:
  "handle env0 None GetMe store_2 = (Inl (Error TokenManquant), store_2)
   \<and> handle env0 (Some ''forged'') (LikePost ''n1'') store_2 = (Inl (Error TokenInvalide), store_2)
   \<and> (\<exists>r. fst (handle env0 (Some ''t1'') (GetRoom ''r1'') store_2) = Inr r)
   \<and> (\<exists>r. fst (handle env0 None (GetProduct ''p1'') store_2) = Inr r)
   \<and> handle env0 None (CreateProduct sell_book) store_2
       = (Inr (ErrorResponse AuthentificationRequise), store_2)"
proof -
  have v: "jwt_verify env0 ''forged'' = VerifyFalse" by (simp add: env0_def)
  have d: "derive_auth env0 (Some ''t1'') store_2 = Inr 0"
    by (simp add: store_2_def store_1_def init_state_def respond_def env0_def
      register_def register_alice_def register_bob_def Let_def derive_auth_def)
  have 1: "handle env0 None GetMe store_2 = (Inl (Error TokenManquant), store_2)"
    using authentication_failures[of GetMe None env0 store_2] by (simp add: truthy_def)
  have 2: "handle env0 (Some ''forged'') (LikePost ''n1'') store_2
      = (Inl (Error TokenInvalide), store_2)"
    using authentication_failures[of "LikePost ''n1''" "Some ''forged''" env0 store_2] v by simp
  have 3: "\<exists>r. fst (handle env0 (Some ''t1'') (GetRoom ''r1'') store_2) = Inr r"
    using authentication_failures[of "GetRoom ''r1''" "Some ''t1''" env0 store_2] d by simp
  have 4: "\<exists>r. fst (handle env0 None (GetProduct ''p1'') store_2) = Inr r"
    using authentication_failures[of "GetProduct ''p1''" None env0 store_2] by simp
  have 5: "handle env0 None (CreateProduct sell_book) store_2
       = (Inr (ErrorResponse AuthentificationRequise), store_2)"
    using authentication_failures[of GetMe None env0 store_2 sell_book] by (simp add: truthy_def)
  from 1 2 3 4 5 show ?thesis by blast
qed

section \<open>Creation and uniqueness\<close>




section \<open>Updates by object merge\<close>

lemma modify_first_as_update:
  "find P xs = Some x \<Longrightarrow>
   \<exists>i. findIndex P xs = Some i \<and> nth_opt xs i = Some x \<and> modify_first P f xs = xs[i := f x]"
proof (induction xs)
  case Nil
  then show ?case by simp
next
  case (Cons y ys)
  show ?case
  proof (cases "P y")
    case True
    with Cons.prems show ?thesis by simp
  next
    case False
    with Cons.prems have "find P ys = Some x" by simp
    from Cons.IH[OF this] obtain i where "findIndex P ys = Some i" "nth_opt ys i = Some x"
      "modify_first P f ys = ys[i := f x]" by blast
    with False show ?thesis by simp
  qed
qed

lemma update_product_merge:
  assumes "find (is_product pid) (products st) = Some p" "uid st (prod_seller p) = uid st cu"
  shows "\<exists>i. findIndex (is_product pid) (products st) = Some i
       \<and> nth_opt (products st) i = Some p
       \<and> update_product e (Some cu) pid ub st
           = (Success (ProductPayload (merge_product e ub p)) (Some ProduitMisAJour),
              st\<lparr>products := (products st)[i := merge_product e ub p]\<rparr>)"
proof -
  from modify_first_as_update[OF assms(1), of "\<lambda>_. merge_product e ub p"] obtain i where
    "findIndex (is_product pid) (products st) = Some i" "nth_opt (products st) i = Some p"
    "modify_first (is_product pid) (\<lambda>_. merge_product e ub p) (products st)
       = (products st)[i := merge_product e ub p]" by blast
  then show ?thesis using assms by (simp add: update_product_def Let_def)
qed

lemma update_room_merge:
  assumes "find (has_id rid) (videoRooms st) = Some r" "uid st (room_host r) = uid st cu"
      and "room_status r \<noteq> Ended"
  shows "\<exists>i. findIndex (has_id rid) (videoRooms st) = Some i
       \<and> nth_opt (videoRooms st) i = Some r
       \<and> update_room e cu rid ub st
           = (Success (RoomViewPayload \<lparr>rv_room = merge_room e ub r,
                 rv_participantCount = length (room_participants r)\<rparr>) (Some SalleMiseAJour),
              st\<lparr>videoRooms := (videoRooms st)[i := merge_room e ub r]\<rparr>)"
proof -
  from modify_first_as_update[OF assms(1), of "\<lambda>_. merge_room e ub r"] obtain i where
    "findIndex (has_id rid) (videoRooms st) = Some i" "nth_opt (videoRooms st) i = Some r"
    "modify_first (has_id rid) (\<lambda>_. merge_room e ub r) (videoRooms st)
       = (videoRooms st)[i := merge_room e ub r]" by blast
  moreover have "view_room (room_password (merge_room e ub r)) (merge_room e ub r)
      = \<lparr>rv_room = merge_room e ub r, rv_participantCount = length (room_participants r)\<rparr>"
    by (simp add: view_room_def merge_room_def)
  ultimately show ?thesis using assms by (simp add: update_room_def Let_def)
qed

text \<open>
  C6, as amended. An update of a product by its seller, of a video room that has not ended
  by its host, and of the current user's profile: the handler succeeds, the entity is
  replaced at its position in its store by one in which every field present in the body
  has the body's value, every field absent from the body has its former value, and
  \<^verbatim>\<open>updatedAt\<close> is the time of the request; the fields that the body cannot name are
  unchanged, and so are every other entity of that store and the other stores.
\<close>

theorem put_merges_in_place:
  "(find (is_product pid) (products st) = Some p \<and> uid st (prod_seller p) = uid st cu \<longrightarrow>
      (\<exists>i p'. findIndex (is_product pid) (products st) = Some i
         \<and> nth_opt (products st) i = Some p
         \<and> update_product e (Some cu) pid pb st
             = (Success (ProductPayload p') (Some ProduitMisAJour),
                st\<lparr>products := (products st)[i := p']\<rparr>)
         \<and> prod_title p' = (case upq_title pb of None \<Rightarrow> prod_title p | Some v \<Rightarrow> v)
         \<and> prod_description p'
             = (case upq_description pb of None \<Rightarrow> prod_description p | Some v \<Rightarrow> v)
         \<and> prod_price p' = (case upq_price pb of None \<Rightarrow> prod_price p | Some v \<Rightarrow> v)
         \<and> prod_condition p'
             = (case upq_condition pb of None \<Rightarrow> prod_condition p | Some v \<Rightarrow> v)
         \<and> prod_images p' = (case upq_images pb of None \<Rightarrow> prod_images p | Some v \<Rightarrow> v)
         \<and> prod_location p'
             = (case upq_location pb of None \<Rightarrow> prod_location p | Some v \<Rightarrow> Some v)
         \<and> prod_status p' = (case upq_status pb of None \<Rightarrow> prod_status p | Some v \<Rightarrow> v)
         \<and> prod_tags p' = (case upq_tags pb of None \<Rightarrow> prod_tags p | Some v \<Rightarrow> v)
         \<and> prod_updatedAt p' = now e
         \<and> prod_id p' = prod_id p \<and> prod_currency p' = prod_currency p
         \<and> prod_category p' = prod_category p \<and> prod_seller p' = prod_seller p
         \<and> prod_createdAt p' = prod_createdAt p))
   \<and> (find (has_id rid) (videoRooms st) = Some r \<and> uid st (room_host r) = uid st cu
        \<and> room_status r \<noteq> Ended \<longrightarrow>
      (\<exists>i r'. findIndex (has_id rid) (videoRooms st) = Some i
         \<and> nth_opt (videoRooms st) i = Some r
         \<and> update_room e cu rid rb st
             = (Success (RoomViewPayload \<lparr>rv_room = r',
                   rv_participantCount = length (room_participants r')\<rparr>) (Some SalleMiseAJour),
                st\<lparr>videoRooms := (videoRooms st)[i := r']\<rparr>)
         \<and> room_name r' = (case urr_name rb of None \<Rightarrow> room_name r | Some v \<Rightarrow> v)
         \<and> room_description r'
             = (case urr_description rb of None \<Rightarrow> room_description r | Some v \<Rightarrow> Some v)
         \<and> room_isPrivate r'
             = (case urr_isPrivate rb of None \<Rightarrow> room_isPrivate r | Some v \<Rightarrow> v)
         \<and> room_maxParticipants r'
             = (case urr_maxParticipants rb of None \<Rightarrow> room_maxParticipants r | Some v \<Rightarrow> v)
         \<and> room_password r'
             = (case urr_password rb of None \<Rightarrow> room_password r | Some v \<Rightarrow> Some v)
         \<and> room_updatedAt r' = now e
         \<and> room_id r' = room_id r \<and> room_host r' = room_host r
         \<and> room_participants r' = room_participants r \<and> room_status r' = room_status r
         \<and> room_createdAt r' = room_createdAt r \<and> room_endedAt r' = room_endedAt r))
   \<and> (nth_opt (users st) cu = Some u \<longrightarrow>
      (\<exists>u'. update_profile e cu ub st
             = (Success (UserPayload cu) (Some ProfilMisAJour),
                st\<lparr>users := (users st)[cu := u']\<rparr>)
         \<and> u_firstName u' = (case upr_firstName ub of None \<Rightarrow> u_firstName u | Some v \<Rightarrow> v)
         \<and> u_lastName u' = (case upr_lastName ub of None \<Rightarrow> u_lastName u | Some v \<Rightarrow> v)
         \<and> u_bio u' = (case upr_bio ub of None \<Rightarrow> u_bio u | Some v \<Rightarrow> Some v)
         \<and> u_location u' = (case upr_location ub of None \<Rightarrow> u_location u | Some v \<Rightarrow> Some v)
         \<and> u_website u' = (case upr_website ub of None \<Rightarrow> u_website u | Some v \<Rightarrow> Some v)
         \<and> u_avatar u' = (case upr_avatar ub of None \<Rightarrow> u_avatar u | Some v \<Rightarrow> Some v)
         \<and> u_updatedAt u' = now e
         \<and> u_id u' = u_id u \<and> u_email u' = u_email u \<and> u_username u' = u_username u
         \<and> u_createdAt u' = u_createdAt u))"
proof (intro conjI impI)
  assume a: "find (is_product pid) (products st) = Some p \<and> uid st (prod_seller p) = uid st cu"
  from update_product_merge[of pid st p cu e pb] a obtain i where
    i: "findIndex (is_product pid) (products st) = Some i" "nth_opt (products st) i = Some p"
    "update_product e (Some cu) pid pb st
           = (Success (ProductPayload (merge_product e pb p)) (Some ProduitMisAJour),
              st\<lparr>products := (products st)[i := merge_product e pb p]\<rparr>)" by blast
  show "\<exists>i p'. findIndex (is_product pid) (products st) = Some i
         \<and> nth_opt (products st) i = Some p
         \<and> update_product e (Some cu) pid pb st
             = (Success (ProductPayload p') (Some ProduitMisAJour),
                st\<lparr>products := (products st)[i := p']\<rparr>)
         \<and> prod_title p' = (case upq_title pb of None \<Rightarrow> prod_title p | Some v \<Rightarrow> v)
         \<and> prod_description p'
             = (case upq_description pb of None \<Rightarrow> prod_description p | Some v \<Rightarrow> v)
         \<and> prod_price p' = (case upq_price pb of None \<Rightarrow> prod_price p | Some v \<Rightarrow> v)
         \<and> prod_condition p'
             = (case upq_condition pb of None \<Rightarrow> prod_condition p | Some v \<Rightarrow> v)
         \<and> prod_images p' = (case upq_images pb of None \<Rightarrow> prod_images p | Some v \<Rightarrow> v)
         \<and> prod_location p'
             = (case upq_location pb of None \<Rightarrow> prod_location p | Some v \<Rightarrow> Some v)
         \<and> prod_status p' = (case upq_status pb of None \<Rightarrow> prod_status p | Some v \<Rightarrow> v)
         \<and> prod_tags p' = (case upq_tags pb of None \<Rightarrow> prod_tags p | Some v \<Rightarrow> v)
         \<and> prod_updatedAt p' = now e
         \<and> prod_id p' = prod_id p \<and> prod_currency p' = prod_currency p
         \<and> prod_category p' = prod_category p \<and> prod_seller p' = prod_seller p
         \<and> prod_createdAt p' = prod_createdAt p"
    using i
    by (intro exI[of _ i] exI[of _ "merge_product e pb p"])
       (simp add: merge_product_def assign_def assign_opt_def)
next
  assume a: "find (has_id rid) (videoRooms st) = Some r \<and> uid st (room_host r) = uid st cu
        \<and> room_status r \<noteq> Ended"
  from update_room_merge[of rid st r cu e rb] a obtain i where
    i: "findIndex (has_id rid) (videoRooms st) = Some i" "nth_opt (videoRooms st) i = Some r"
    "update_room e cu rid rb st
           = (Success (RoomViewPayload \<lparr>rv_room = merge_room e rb r,
                 rv_participantCount = length (room_participants r)\<rparr>) (Some SalleMiseAJour),
              st\<lparr>videoRooms := (videoRooms st)[i := merge_room e rb r]\<rparr>)" by blast
  show "\<exists>i r'. findIndex (has_id rid) (videoRooms st) = Some i
         \<and> nth_opt (videoRooms st) i = Some r
         \<and> update_room e cu rid rb st
             = (Success (RoomViewPayload \<lparr>rv_room = r',
                   rv_participantCount = length (room_participants r')\<rparr>) (Some SalleMiseAJour),
                st\<lparr>videoRooms := (videoRooms st)[i := r']\<rparr>)
         \<and> room_name r' = (case urr_name rb of None \<Rightarrow> room_name r | Some v \<Rightarrow> v)
         \<and> room_description r'
             = (case urr_description rb of None \<Rightarrow> room_description r | Some v \<Rightarrow> Some v)
         \<and> room_isPrivate r'
             = (case urr_isPrivate rb of None \<Rightarrow> room_isPrivate r | Some v \<Rightarrow> v)
         \<and> room_maxParticipants r'
             = (case urr_maxParticipants rb of None \<Rightarrow> room_maxParticipants r | Some v \<Rightarrow> v)
         \<and> room_password r'
             = (case urr_password rb of None \<Rightarrow> room_password r | Some v \<Rightarrow> Some v)
         \<and> room_updatedAt r' = now e
         \<and> room_id r' = room_id r \<and> room_host r' = room_host r
         \<and> room_participants r' = room_participants r \<and> room_status r' = room_status r
         \<and> room_createdAt r' = room_createdAt r \<and> room_endedAt r' = room_endedAt r"
    using i
    by (intro exI[of _ i] exI[of _ "merge_room e rb r"])
       (simp add: merge_room_def assign_def assign_opt_def)
next
  assume a: "nth_opt (users st) cu = Some u"
  have nth: "nth_opt xs i = Some x \<Longrightarrow> xs ! i = x" for xs :: "user list" and i x
    by (induction xs i rule: nth_opt.induct) simp_all
  show "\<exists>u'. update_profile e cu ub st
             = (Success (UserPayload cu) (Some ProfilMisAJour),
                st\<lparr>users := (users st)[cu := u']\<rparr>)
         \<and> u_firstName u' = (case upr_firstName ub of None \<Rightarrow> u_firstName u | Some v \<Rightarrow> v)
         \<and> u_lastName u' = (case upr_lastName ub of None \<Rightarrow> u_lastName u | Some v \<Rightarrow> v)
         \<and> u_bio u' = (case upr_bio ub of None \<Rightarrow> u_bio u | Some v \<Rightarrow> Some v)
         \<and> u_location u' = (case upr_location ub of None \<Rightarrow> u_location u | Some v \<Rightarrow> Some v)
         \<and> u_website u' = (case upr_website ub of None \<Rightarrow> u_website u | Some v \<Rightarrow> Some v)
         \<and> u_avatar u' = (case upr_avatar ub of None \<Rightarrow> u_avatar u | Some v \<Rightarrow> Some v)
         \<and> u_updatedAt u' = now e
         \<and> u_id u' = u_id u \<and> u_email u' = u_email u \<and> u_username u' = u_username u
         \<and> u_createdAt u' = u_createdAt u"
    using nth[OF a]
    by (intro exI[of _ "merge_user e ub u"])
       (simp add: update_profile_def merge_user_def assign_def assign_opt_def)
qed

theorem put_merges_in_place_witness:
  "find (is_product ''p1'') (products store_ab) = Some book
   \<and> uid store_ab (prod_seller book) = uid store_ab 0
   \<and> (\<exists>i p'. update_product env0 (Some 0) ''p1'' reprice store_ab
          = (Success (ProductPayload p') (Some ProduitMisAJour),
             store_ab\<lparr>products := (products store_ab)[i := p']\<rparr>)
        \<and> prod_price p' = 7 \<and> prod_title p' = ''book'' \<and> prod_updatedAt p' = 50)
   \<and> find (has_id ''r1'') (videoRooms store_ab) = Some room_ab
   \<and> uid store_ab (room_host room_ab) = uid store_ab 0
   \<and> room_status room_ab \<noteq> Ended
   \<and> (\<exists>i r'. update_room env0 0 ''r1'' set_password store_ab
          = (Success (RoomViewPayload \<lparr>rv_room = r',
                rv_participantCount = length (room_participants r')\<rparr>) (Some SalleMiseAJour),
             store_ab\<lparr>videoRooms := (videoRooms store_ab)[i := r']\<rparr>)
        \<and> room_password r' = Some ''hidden'' \<and> room_name r' = ''standup''
        \<and> room_participants r' = [0, 1])
   \<and> nth_opt (users store_ab) 0 = Some alice
   \<and> (\<exists>u'. update_profile env0 0 add_bio store_ab
          = (Success (UserPayload 0) (Some ProfilMisAJour),
             store_ab\<lparr>users := (users store_ab)[0 := u']\<rparr>)
        \<and> u_bio u' = Some ''hello'' \<and> u_firstName u' = ''Alice'' \<and> u_id u' = ''u1'')"
proof -
  have p1: "find (is_product ''p1'') (products store_ab) = Some book"
    by (simp add: store_ab_def is_product_def book_def)
  have p2: "uid store_ab (prod_seller book) = uid store_ab 0" by (simp add: book_def)
  have r1: "find (has_id ''r1'') (videoRooms store_ab) = Some room_ab"
    by (simp add: store_ab_def has_id_def room_ab_def)
  have r2: "uid store_ab (room_host room_ab) = uid store_ab 0" by (simp add: room_ab_def)
  have r3: "room_status room_ab \<noteq> Ended" by (simp add: room_ab_def)
  have u1: "nth_opt (users store_ab) 0 = Some alice" by (simp add: store_ab_def)
  note t = put_merges_in_place[of "''p1''" store_ab book 0 env0 reprice "''r1''" room_ab
      set_password alice add_bio]
  from t p1 p2 have a: "\<exists>i p'. update_product env0 (Some 0) ''p1'' reprice store_ab
          = (Success (ProductPayload p') (Some ProduitMisAJour),
             store_ab\<lparr>products := (products store_ab)[i := p']\<rparr>)
        \<and> prod_price p' = 7 \<and> prod_title p' = ''book'' \<and> prod_updatedAt p' = 50"
    by (auto simp: reprice_def book_def env0_def)
  from t r1 r2 r3 have b: "\<exists>i r'. update_room env0 0 ''r1'' set_password store_ab
          = (Success (RoomViewPayload \<lparr>rv_room = r',
                rv_participantCount = length (room_participants r')\<rparr>) (Some SalleMiseAJour),
             store_ab\<lparr>videoRooms := (videoRooms store_ab)[i := r']\<rparr>)
        \<and> room_password r' = Some ''hidden'' \<and> room_name r' = ''standup''
        \<and> room_participants r' = [0, 1]"
    by (auto simp: set_password_def room_ab_def)
  from t u1 have c: "\<exists>u'. update_profile env0 0 add_bio store_ab
          = (Success (UserPayload 0) (Some ProfilMisAJour),
             store_ab\<lparr>users := (users store_ab)[0 := u']\<rparr>)
        \<and> u_bio u' = Some ''hello'' \<and> u_firstName u' = ''Alice'' \<and> u_id u' = ''u1''"
    by (auto simp: add_bio_def alice_def)
  from p1 p2 a r1 r2 r3 b u1 c show ?thesis by blast
qed

lemma view_room_password: "room_password (rv_room (view_room pw r)) = pw"
  by (simp add: view_room_def)

lemma store_ended_values:
  "users store_ended = [alice\<lparr>u_createdAt := 50, u_updatedAt := 50\<rparr>,
                        bob\<lparr>u_createdAt := 50, u_updatedAt := 50\<rparr>]"
  "videoRooms store_ended = [room_ab\<lparr>room_maxParticipants := 5, room_status := Ended,
      room_createdAt := 50, room_updatedAt := 70, room_endedAt := Some 70\<rparr>]"
  by (simp_all add: store_ended_def store_4_def store_3_def store_2_def store_1_def
      init_state_def respond_def env0_def register_def register_alice_def register_bob_def
      alice_def bob_def Let_def with_auth_def derive_auth_def create_room_def open_room_def
      join_room_def has_id_def uid_def truthy_def end_room_def room_ab_def)

text \<open>
  The claim as stated fails on a room that has ended: the host's update is refused with
  "Impossible de modifier une salle terminee", nothing is merged and \<^verbatim>\<open>updatedAt\<close>
  keeps its value.
\<close>

theorem host_update_of_ended_room_rejected:
  "reachable store_ended
   \<and> derive_auth env0 (Some ''t1'') store_ended = Inr 0
   \<and> find (has_id ''r1'') (videoRooms store_ended)
       = Some (room_ab\<lparr>room_maxParticipants := 5, room_status := Ended,
            room_createdAt := 50, room_updatedAt := 70, room_endedAt := Some 70\<rparr>)
   \<and> uid store_ended (room_host room_ab) = uid store_ended 0
   \<and> handle env0 (Some ''t1'') (UpdateRoom ''r1'' set_password) store_ended
       = (Inr (ErrorResponse ImpossibleModifierTerminee), store_ended)"
proof -
  have r: "reachable store_ended"
    unfolding store_ended_def store_4_def store_3_def store_2_def store_1_def
    by (intro reachable_step reachable_init)
  have d: "derive_auth env0 (Some ''t1'') store_ended = Inr 0"
    by (simp add: derive_auth_def env0_def store_ended_values alice_def bob_def)
  have f: "find (has_id ''r1'') (videoRooms store_ended)
       = Some (room_ab\<lparr>room_maxParticipants := 5, room_status := Ended,
            room_createdAt := 50, room_updatedAt := 70, room_endedAt := Some 70\<rparr>)"
    by (simp add: store_ended_values has_id_def room_ab_def)
  have u: "uid store_ended (room_host room_ab) = uid store_ended 0" by (simp add: room_ab_def)
  have h: "handle env0 (Some ''t1'') (UpdateRoom ''r1'' set_password) store_ended
       = (Inr (ErrorResponse ImpossibleModifierTerminee), store_ended)"
    by (simp add: with_auth_def d respond_def update_room_def f) (simp add: room_ab_def)
  from r d f u h show ?thesis by simp
qed

section \<open>Room passwords in responses\<close>

lemma list_rooms_hides_passwords:
  assumes "list_rooms s st = Success (RoomsPayload vs n) m"
  shows "list_all (\<lambda>v. room_password (rv_room v) = None) vs"
proof -
  from assms obtain rs where "vs = map (view_room None) rs"
    by (simp add: list_rooms_def Let_def) blast
  then show ?thesis by (simp add: list_all_iff view_room_password)
qed

lemma history_hides_passwords:
  assumes "history cu pg l st = Success (RoomHistoryPayload vs p) m"
  shows "list_all (\<lambda>v. room_password (rv_room v) = None) vs"
proof -
  from assms obtain rs where "vs = map (view_room None) rs"
    by (simp add: history_def Let_def) blast
  then show ?thesis by (simp add: list_all_iff view_room_password)
qed

lemma get_room_password:
  assumes "get_room cu rid st = Success (RoomViewPayload v) m"
  shows "\<exists>r. find (has_id rid) (videoRooms st) = Some r
     \<and> room_password (rv_room v)
         = (if uid st (room_host r) = uid st cu then room_password r else None)"
proof (cases "find (has_id rid) (videoRooms st)")
  case None
  with assms show ?thesis by (simp add: get_room_def)
next
  case (Some r)
  let ?pw = "if uid st (room_host r) = uid st cu then room_password r else None"
  from assms Some have "v = view_room ?pw r"
    by (simp add: get_room_def split: if_splits)
  then have "room_password (rv_room v) = ?pw" by (simp only: view_room_password)
  with Some show ?thesis by simp
qed

lemma store_5_values:
  "users store_5 = [alice\<lparr>u_createdAt := 50, u_updatedAt := 50\<rparr>,
                    bob\<lparr>u_createdAt := 50, u_updatedAt := 50\<rparr>]"
  "videoRooms store_5 = [room_ab\<lparr>room_maxParticipants := 5, room_password := Some ''hidden'',
      room_createdAt := 50, room_updatedAt := 60\<rparr>]"
  by (simp_all add: store_5_def store_4_def store_3_def store_2_def store_1_def init_state_def
      respond_def env0_def register_def register_alice_def register_bob_def alice_def bob_def
      Let_def with_auth_def derive_auth_def create_room_def open_room_def join_room_def
      has_id_def uid_def truthy_def update_room_def merge_room_def set_password_def
      assign_def assign_opt_def view_room_def room_ab_def)

text \<open>
  C8. The three listings above never disclose a password to a user who is not the host.
  The join handler does: Alice opens a room, Bob joins it, Alice sets a password, and
  Bob's next join request takes the "already in the room" path, which returns the stored
  room with its password, although Bob is not the host. The path that adds a participant
  returns the room with the password removed.
\<close>

theorem join_again_discloses_password:
  "reachable store_5
   \<and> derive_auth env0 (Some ''t2'') store_5 = Inr 1
   \<and> uid store_5 1 \<noteq> uid store_5 (room_host (hd (videoRooms store_5)))
   \<and> fst (handle env0 (Some ''t2'') (JoinRoom ''r1'' None) store_5)
       = Inr (Success (RoomPayload (room_ab\<lparr>room_maxParticipants := 5,
                room_password := Some ''hidden'', room_createdAt := 50, room_updatedAt := 60\<rparr>))
              (Some DejaDansSalle))"
proof -
  have r: "reachable store_5"
    unfolding store_5_def store_4_def store_3_def store_2_def store_1_def
    by (intro reachable_step reachable_init)
  have d: "derive_auth env0 (Some ''t2'') store_5 = Inr 1"
    by (simp add: derive_auth_def env0_def store_5_values alice_def bob_def)
  have u: "uid store_5 1 \<noteq> uid store_5 (room_host (hd (videoRooms store_5)))"
    by (simp add: uid_def store_5_values alice_def bob_def room_ab_def)
  have j: "fst (handle env0 (Some ''t2'') (JoinRoom ''r1'' None) store_5)
       = Inr (Success (RoomPayload (room_ab\<lparr>room_maxParticipants := 5,
                room_password := Some ''hidden'', room_createdAt := 50, room_updatedAt := 60\<rparr>))
              (Some DejaDansSalle))"
    by (simp add: with_auth_def d respond_def join_room_def store_5_values has_id_def room_ab_def
          uid_def alice_def bob_def)
  from r d u j show ?thesis by simp
qed

section \<open>The marketplace listing\<close>













lemma js_less_asym: "js_less a b \<Longrightarrow> \<not> js_less b a"
  by (cases a; cases b) auto



lemma sorts_before_asym: "sorts_before k d a b \<Longrightarrow> \<not> sorts_before k d b a"
  unfolding sorts_before_def by (auto dest: js_less_asym split: if_splits)












end
